theory Spec2Isabelle
  imports Complex_Main "HOL-Library.AList"
begin

section \<open>The CPU resource advisor of katalyst-core\<close>

text \<open>
  A shallow embedding of \<^verbatim>\<open>pkg/agent/sysadvisor/plugin/qosaware/resource/cpu/advisor.go\<close>:
  the advisor's state, its public getter \<^verbatim>\<open>GetHeadroom\<close> and its update cycle
  \<^verbatim>\<open>update\<close> with the helpers it calls. Go's mutation of the advisor, of the regions it
  points to and of the MetaCache is explicit state passing; an \<^verbatim>\<open>error\<close> return is the
  left injection of a sum; a run-time panic is a value of its own.
\<close>

subsection \<open>Data model\<close>

text \<open>
  \<^verbatim>\<open>machine.CPUSet\<close> is a finite set of ints (\<^verbatim>\<open>Size\<close> is \<open>card\<close>, \<^verbatim>\<open>Difference\<close> is
  set difference, \<^verbatim>\<open>ToSliceInt\<close> the ascending list of the elements). A
  \<^verbatim>\<open>resource.Quantity\<close> is only ever built here by \<^verbatim>\<open>resource.NewQuantity(int64(n), DecimalSI)\<close>
  and added up: it is the integer it holds. Go's \<^verbatim>\<open>int\<close> is modelled as the unbounded
  \<open>int\<close>: CPU and NUMA counts are far from 64-bit overflow.
\<close>

type_synonym cpuset = "int set"
type_synonym quantity = int

datatype qos_region_type = QoSRegionTypeShare | QoSRegionTypeDedicatedNumaExclusive

datatype error =
    ReservePoolNotExist
  | FailedToFindRegion string
  | FailedToFindPool string
  | GetProvisionWithError error
  | RegionError string
  | Aggregate "error list"

datatype go_panic = IndexOutOfRange

datatype 'a outcome = Ok 'a | Fail error | Panic go_panic

datatype log_entry =
    Warning_SkipUpdateReservePoolNotExist
  | Error_AssignContainersToRegionsFailed error
  | Info_RegionMap "string list"
  | Error_AssembleRegionEntriesFailed error
  | Info_SkipNotifyingStartingUp
  | Error_AssembleProvisionFailed error
  | Info_NotifyCPUServer
  | Error_InvalidNumaCount string "int list"
  | Info_DeleteRegion string

record control_knob_value =
  knobValue :: real
  knobAction :: string

type_synonym control_knob = "(string \<times> control_knob_value) list"

record resource_essentials =
  Total :: int
  ReservePoolSize :: int
  ReservedForAllocate :: int
  EnableReclaim :: bool

text \<open>
  Modelled from the spec: the region package (\<^verbatim>\<open>region.QoSRegion\<close> and its two
  implementations) is not among the sources. A region is the state the advisor reads and
  writes through the interface: name, type, owner pool, bound containers, binding NUMA
  set, essentials, the policy names (top priority, in use) that \<^verbatim>\<open>GetHeadRoomPolicy\<close> and
  \<^verbatim>\<open>GetProvisionPolicy\<close> return, and the last computed control knob map and headroom
  value, which \<^verbatim>\<open>GetProvision\<close> and \<^verbatim>\<open>GetHeadroom\<close> return (or an error).
\<close>

record qos_region =
  regionName :: string
  regionType :: qos_region_type
  ownerPoolName :: string
  podSet :: "(string \<times> string) set"
  bindingNumas :: cpuset
  essentials :: resource_essentials
  provision :: "error + control_knob"
  headroom :: "error + quantity"
  headRoomPolicy :: "string \<times> string"
  provisionPolicyNames :: "string \<times> string"

record container_info =
  PodUID :: string
  ContainerName :: string
  QoSLevel :: string
  OwnerPoolName :: string
  IsNumaBinding :: bool
  TopologyAwareAssignments :: "(int \<times> cpuset) list"
  RegionNames :: "string list"

record pool_info =
  PoolName :: string
  poolTopologyAwareAssignments :: "(int \<times> cpuset) list"
  poolRegionNames :: "string list"

record region_info =
  RegionType :: qos_region_type
  BindingNumas :: cpuset
  ControlKnobMap :: control_knob
  HeadroomPolicyTopPriority :: string
  HeadroomPolicyInUse :: string
  ProvisionPolicyTopPriority :: string
  ProvisionPolicyInUse :: string

type_synonym region_entries = "string \<rightharpoonup> region_info"

text \<open>
  Modelled from the spec: the MetaCache is an external collaborator. It holds the pool
  infos by name, the container infos (ranged in some order: a list) and the region
  entries last published. A stored pool is never a nil pointer.
\<close>

record meta_cache =
  poolEntries :: "string \<rightharpoonup> pool_info"
  containerEntries :: "container_info list"
  regionEntries :: region_entries

text \<open>Modelled from the spec: the MetaServer's machine topology, as far as it is read.\<close>

record meta_server =
  NumCPUs :: int
  NumNUMANodes :: int
  CPUsPerNuma :: int

text \<open>
  The two fields of \<^verbatim>\<open>conf.ReclaimedResourceConfiguration\<close> that the cycle reads:
  \<^verbatim>\<open>EnableReclaim()\<close> and \<^verbatim>\<open>ReservedResourceForAllocate()[v1.ResourceCPU].Value()\<close>.
\<close>

record configuration =
  confEnableReclaim :: bool
  confReservedForAllocateCPU :: int

type_synonym pool_entries = "string \<rightharpoonup> (int \<rightharpoonup> quantity)"

record internal_calculation_result =
  PoolEntries :: pool_entries

text \<open>
  The advisor. \<open>regionMap\<close> is Go's \<^verbatim>\<open>map[string]region.QoSRegion\<close> as an association
  list: the order of the list stands for the order in which a \<^verbatim>\<open>range\<close> visits the map,
  which Go leaves open, so every theorem below is about all orders. \<open>sendCh\<close> is the list
  of values sent on the channel so far, \<open>klog\<close> the messages logged so far, \<open>uuidCount\<close>
  the number of UUIDs drawn. Times are nanoseconds, as in \<^verbatim>\<open>time.Duration\<close>.
\<close>

record cpuResourceAdvisor =
  conf :: configuration
  startTime :: int
  systemNumas :: cpuset
  regionMap :: "(string \<times> qos_region) list"
  nonBindingNumas :: cpuset
  metaCache :: meta_cache
  metaServer :: meta_server
  sendCh :: "internal_calculation_result list"
  klog :: "log_entry list"
  uuidCount :: nat

text \<open>
  What the absent region and policy code computes is a parameter of the model: the
  control knobs and the headroom a region's policy yields, the results a new region
  returns before its first update, the configured policy names, the error that the
  MetaCache's \<^verbatim>\<open>SetPoolInfo\<close> may return (and whether the pool is stored all the same), the error \<^verbatim>\<open>AddContainer\<close> may return, and the
  strings \<^verbatim>\<open>uuid.NewUUID\<close> hands out.
\<close>

record region_policies =
  provisionPolicy :: "meta_cache \<Rightarrow> qos_region \<Rightarrow> error + control_knob"
  headroomPolicy :: "meta_cache \<Rightarrow> qos_region \<Rightarrow> error + quantity"
  initialProvision :: "error + control_knob"
  initialHeadroom :: "error + quantity"
  configuredHeadroomPolicy :: "string \<times> string"
  configuredProvisionPolicy :: "string \<times> string"
  addContainerError :: "qos_region \<Rightarrow> container_info \<Rightarrow> error option"
  setPoolInfoError :: "meta_cache \<Rightarrow> string \<Rightarrow> pool_info \<Rightarrow> (error \<times> bool) option"
  newUUID :: "nat \<Rightarrow> string"

subsection \<open>Constants\<close>

definition startUpPeriod :: int where
  "startUpPeriod = 30 * 1000000000"

definition regionNameSeparator :: string where
  "regionNameSeparator = ''-''"

text \<open>
  Modelled from the spec: the constants of the packages \<^verbatim>\<open>state\<close>, \<^verbatim>\<open>cpuadvisor\<close>,
  \<^verbatim>\<open>consts\<close> and \<^verbatim>\<open>types\<close>, which are not among the sources.
\<close>

definition PoolNameReserve :: string where "PoolNameReserve = ''reserve''"
definition PoolNameShare :: string where "PoolNameShare = ''share''"
definition PoolNameReclaim :: string where "PoolNameReclaim = ''reclaim''"
definition PoolNameDedicated :: string where "PoolNameDedicated = ''dedicated''"
definition FakedNumaID :: int where "FakedNumaID = - 1"
definition PodAnnotationQoSLevelSharedCores :: string where
  "PodAnnotationQoSLevelSharedCores = ''shared_cores''"
definition ControlKnobNonReclaimedCPUSetSize :: string where
  "ControlKnobNonReclaimedCPUSetSize = ''non_reclaimed_cpuset_size''"
definition ControlKnobReclaimedCPUSupplied :: string where
  "ControlKnobReclaimedCPUSupplied = ''reclaimed_cpu_supplied''"

fun regionTypeString :: "qos_region_type \<Rightarrow> string" where
  "regionTypeString QoSRegionTypeShare = ''share''"
| "regionTypeString QoSRegionTypeDedicatedNumaExclusive = ''dedicated-numa-exclusive''"

subsection \<open>Numeric conversions\<close>

text \<open>
  \<^verbatim>\<open>math.Ceil(float64(a) / float64(n))\<close> converted back to an integer. For \<open>n > 0\<close> and
  \<open>|a| < 2^53\<close> the float64 quotient rounds to an integer only when the exact quotient
  is one, so the result is the exact ceiling. For \<open>n = 0\<close> Go divides to an infinity or
  a NaN, whose conversion is implementation-dependent: outside this model.
\<close>

definition ceilDiv :: "int \<Rightarrow> int \<Rightarrow> int" where
  "ceilDiv a n = \<lceil>real_of_int a / real_of_int n\<rceil>"

text \<open>Go's conversion \<^verbatim>\<open>int(x)\<close> of a float64 truncates towards zero.\<close>

definition goInt :: "real \<Rightarrow> int" where
  "goInt x = (if 0 \<le> x then \<lfloor>x\<rfloor> else \<lceil>x\<rceil>)"

text \<open>
  \<^verbatim>\<open>controlKnob[name].Value\<close>: indexing a Go map at a missing key gives the zero value.
\<close>

definition knobValueOf :: "control_knob \<Rightarrow> string \<Rightarrow> real" where
  "knobValueOf ck k = (case map_of ck k of None \<Rightarrow> 0 | Some v \<Rightarrow> knobValue v)"

subsection \<open>MetaCache reads and writes\<close>

definition cpusetSize :: "cpuset \<Rightarrow> int" where
  "cpusetSize A = int (card A)"

definition GetPoolInfo :: "meta_cache \<Rightarrow> string \<Rightarrow> pool_info option" where
  "GetPoolInfo mc poolName = poolEntries mc poolName"

text \<open>
  Modelled from the spec: \<^verbatim>\<open>GetPoolSize\<close> gives the pool's total size, the number of
  CPUs of its per-NUMA assignment, and whether the pool exists.
\<close>

definition GetPoolSize :: "meta_cache \<Rightarrow> string \<Rightarrow> int option" where
  "GetPoolSize mc poolName =
     (case poolEntries mc poolName of
        None \<Rightarrow> None
      | Some pool \<Rightarrow> Some (sum_list (map (\<lambda>(numaID, cpus). cpusetSize cpus) (poolTopologyAwareAssignments pool))))"

text \<open>
  Modelled from the spec: \<^verbatim>\<open>SetPoolInfo\<close> stores the pool info under its name and returns an
  error or nil. When it returns an error, whether the pool has been stored is left to the
  parameter.
\<close>

definition SetPoolInfo ::
    "region_policies \<Rightarrow> meta_cache \<Rightarrow> string \<Rightarrow> pool_info \<Rightarrow> error option \<times> meta_cache" where
  "SetPoolInfo pol mc poolName pool =
     (let stored = mc\<lparr>poolEntries := (poolEntries mc)(poolName \<mapsto> pool)\<rparr>
      in case setPoolInfoError pol mc poolName pool of
           None \<Rightarrow> (None, stored)
         | Some (err, kept) \<Rightarrow> (Some err, if kept then stored else mc))"

definition UpdateRegionEntries :: "meta_cache \<Rightarrow> region_entries \<Rightarrow> meta_cache" where
  "UpdateRegionEntries mc entries = mc\<lparr>regionEntries := entries\<rparr>"

subsection \<open>GetHeadroom\<close>

text \<open>
  The loop of \<^verbatim>\<open>GetHeadroom\<close> over the region map: it returns at the first region whose
  \<^verbatim>\<open>GetHeadroom\<close> fails, and otherwise carries \<^verbatim>\<open>hasShareRegion\<close> and \<^verbatim>\<open>totalHeadroom\<close>.
\<close>

fun headroomLoop :: "(string \<times> qos_region) list \<Rightarrow> bool \<Rightarrow> quantity \<Rightarrow> error + (bool \<times> quantity)" where
  "headroomLoop [] hasShareRegion totalHeadroom = Inr (hasShareRegion, totalHeadroom)"
| "headroomLoop ((k, r) # rs) hasShareRegion totalHeadroom =
     (case headroom r of
        Inl err \<Rightarrow> Inl err
      | Inr h \<Rightarrow>
          headroomLoop rs (if regionType r = QoSRegionTypeShare then True else hasShareRegion)
            (totalHeadroom + h))"

definition GetHeadroom :: "cpuResourceAdvisor \<Rightarrow> error + quantity" where
  "GetHeadroom cra =
     (case GetPoolSize (metaCache cra) PoolNameReserve of
        None \<Rightarrow> Inl ReservePoolNotExist
      | Some reservePoolSize \<Rightarrow>
          if length (regionMap cra) \<le> 0 then
            Inr (NumCPUs (metaServer cra) - reservePoolSize)
          else
            (case headroomLoop (regionMap cra) False 0 of
               Inl err \<Rightarrow> Inl err
             | Inr (hasShareRegion, totalHeadroom) \<Rightarrow>
                 if \<not> hasShareRegion then
                   (let reservePoolSizeOfNonBindingNumas =
                          ceilDiv (reservePoolSize * cpusetSize (nonBindingNumas cra))
                            (NumNUMANodes (metaServer cra));
                        headroomOfNonBindingNumas =
                          cpusetSize (nonBindingNumas cra) * CPUsPerNuma (metaServer cra)
                            - reservePoolSizeOfNonBindingNumas
                    in Inr (totalHeadroom + headroomOfNonBindingNumas))
                 else Inr totalHeadroom))"

subsection \<open>Region methods\<close>

text \<open>
  Modelled from the spec: the methods of \<^verbatim>\<open>region.QoSRegion\<close> that the advisor calls.
  \<^verbatim>\<open>Clear\<close> empties the container set and \<^verbatim>\<open>AddContainer\<close> adds to it;
  \<^verbatim>\<open>TryUpdateProvision\<close> and \<^verbatim>\<open>TryUpdateHeadroom\<close> overwrite the control knob map and
  the headroom value with what the region's policy yields; a share region is created
  with no binding NUMA, a dedicated-numa-exclusive one bound to its NUMA id.
\<close>

definition Clear :: "qos_region \<Rightarrow> qos_region" where
  "Clear r = r\<lparr>podSet := {}\<rparr>"

definition IsEmpty :: "qos_region \<Rightarrow> bool" where
  "IsEmpty r = (podSet r = {})"

definition AddContainer :: "region_policies \<Rightarrow> qos_region \<Rightarrow> container_info \<Rightarrow> error + qos_region" where
  "AddContainer pol r ci =
     (case addContainerError pol r ci of
        Some err \<Rightarrow> Inl err
      | None \<Rightarrow> Inr (r\<lparr>podSet := insert (PodUID ci, ContainerName ci) (podSet r)\<rparr>))"

definition SetBindingNumas :: "qos_region \<Rightarrow> cpuset \<Rightarrow> qos_region" where
  "SetBindingNumas r numas = r\<lparr>bindingNumas := numas\<rparr>"

definition SetEssentials :: "qos_region \<Rightarrow> resource_essentials \<Rightarrow> qos_region" where
  "SetEssentials r e = r\<lparr>essentials := e\<rparr>"

definition TryUpdateProvision :: "region_policies \<Rightarrow> meta_cache \<Rightarrow> qos_region \<Rightarrow> qos_region" where
  "TryUpdateProvision pol mc r = r\<lparr>provision := provisionPolicy pol mc r\<rparr>"

definition TryUpdateHeadroom :: "region_policies \<Rightarrow> meta_cache \<Rightarrow> qos_region \<Rightarrow> qos_region" where
  "TryUpdateHeadroom pol mc r = r\<lparr>headroom := headroomPolicy pol mc r\<rparr>"

definition newRegion :: "region_policies \<Rightarrow> qos_region_type \<Rightarrow> string \<Rightarrow> string \<Rightarrow> cpuset \<Rightarrow> qos_region" where
  "newRegion pol t nm ownerPool numas =
     \<lparr>regionName = nm, regionType = t, ownerPoolName = ownerPool, podSet = {},
      bindingNumas = numas,
      essentials = \<lparr>Total = 0, ReservePoolSize = 0, ReservedForAllocate = 0, EnableReclaim = False\<rparr>,
      provision = initialProvision pol, headroom = initialHeadroom pol,
      headRoomPolicy = configuredHeadroomPolicy pol,
      provisionPolicyNames = configuredProvisionPolicy pol\<rparr>"

definition NewQoSRegionShare :: "region_policies \<Rightarrow> string \<Rightarrow> string \<Rightarrow> qos_region" where
  "NewQoSRegionShare pol nm ownerPool = newRegion pol QoSRegionTypeShare nm ownerPool {}"

definition NewQoSRegionDedicatedNumaExclusive ::
    "region_policies \<Rightarrow> string \<Rightarrow> string \<Rightarrow> int \<Rightarrow> qos_region" where
  "NewQoSRegionDedicatedNumaExclusive pol nm ownerPool numaID =
     newRegion pol QoSRegionTypeDedicatedNumaExclusive nm ownerPool {numaID}"

subsection \<open>Assigning containers to regions\<close>

text \<open>
  The loop shared by \<^verbatim>\<open>getContainerRegions\<close> and \<^verbatim>\<open>getPoolRegions\<close>: the regions of the
  given names, or the error for the first name that the region map lacks. A
  \<^verbatim>\<open>sets.String\<close> is the list of its elements in the order a \<^verbatim>\<open>range\<close> visits them.
\<close>

fun lookupRegions :: "(string \<times> qos_region) list \<Rightarrow> string list \<Rightarrow> error + qos_region list" where
  "lookupRegions rm [] = Inr []"
| "lookupRegions rm (n # ns) =
     (case map_of rm n of
        None \<Rightarrow> Inl (FailedToFindRegion n)
      | Some r \<Rightarrow>
          (case lookupRegions rm ns of
             Inl err \<Rightarrow> Inl err
           | Inr regions \<Rightarrow> Inr (r # regions)))"

definition getContainerRegions :: "cpuResourceAdvisor \<Rightarrow> container_info \<Rightarrow> error + qos_region list" where
  "getContainerRegions cra ci = lookupRegions (regionMap cra) (RegionNames ci)"

definition getPoolRegions :: "cpuResourceAdvisor \<Rightarrow> string \<Rightarrow> error + qos_region list" where
  "getPoolRegions cra poolName =
     (case GetPoolInfo (metaCache cra) poolName of
        None \<Rightarrow> Inr []
      | Some pool \<Rightarrow> lookupRegions (regionMap cra) (poolRegionNames pool))"

definition setContainerRegions :: "container_info \<Rightarrow> qos_region list \<Rightarrow> container_info" where
  "setContainerRegions ci regions = ci\<lparr>RegionNames := remdups (map regionName regions)\<rparr>"

text \<open>
  \<^verbatim>\<open>setPoolRegions\<close> returns the error of the missing pool or the one of \<^verbatim>\<open>SetPoolInfo\<close>;
  the second component is the MetaCache as the call leaves it.
\<close>

definition setPoolRegions ::
    "region_policies \<Rightarrow> cpuResourceAdvisor \<Rightarrow> string \<Rightarrow> qos_region list
       \<Rightarrow> error option \<times> meta_cache" where
  "setPoolRegions pol cra poolName regions =
     (case GetPoolInfo (metaCache cra) poolName of
        None \<Rightarrow> (Some (FailedToFindPool poolName), metaCache cra)
      | Some pool \<Rightarrow>
          SetPoolInfo pol (metaCache cra) poolName
            (pool\<lparr>poolRegionNames := remdups (map regionName regions)\<rparr>))"

text \<open>
  The creation loop of \<^verbatim>\<open>assignToRegions\<close>: one dedicated-numa-exclusive region for each
  NUMA id of the container's assignment, each named with a new UUID. The second
  component is the number of UUIDs drawn afterwards.
\<close>

fun createDedicatedRegions ::
    "region_policies \<Rightarrow> container_info \<Rightarrow> int list \<Rightarrow> nat \<Rightarrow> qos_region list \<times> nat" where
  "createDedicatedRegions pol ci [] n = ([], n)"
| "createDedicatedRegions pol ci (numaID # numaIDs) n =
     (let nm = regionTypeString QoSRegionTypeDedicatedNumaExclusive @ regionNameSeparator @ newUUID pol n;
          r = NewQoSRegionDedicatedNumaExclusive pol nm (OwnerPoolName ci) numaID;
          (regions, n') = createDedicatedRegions pol ci numaIDs (Suc n)
      in (r # regions, n'))"

text \<open>
  \<^verbatim>\<open>assignToRegions\<close> returns \<^verbatim>\<open>(nil, err)\<close>, \<^verbatim>\<open>(regions, nil)\<close> or \<^verbatim>\<open>(nil, nil)\<close>; the empty
  list is Go's nil slice (every list the function builds by \<^verbatim>\<open>append\<close> is non-empty).
\<close>

definition assignToRegions ::
    "region_policies \<Rightarrow> cpuResourceAdvisor \<Rightarrow> container_info \<Rightarrow> (error + qos_region list) \<times> nat" where
  "assignToRegions pol cra ci =
     (if QoSLevel ci = PodAnnotationQoSLevelSharedCores then
        (case getPoolRegions cra (OwnerPoolName ci) of
           Inl err \<Rightarrow> (Inl err, uuidCount cra)
         | Inr regions \<Rightarrow>
             if length regions > 0 then (Inr regions, uuidCount cra)
             else
               (let nm = regionTypeString QoSRegionTypeShare @ regionNameSeparator
                           @ newUUID pol (uuidCount cra);
                    r = NewQoSRegionShare pol nm (OwnerPoolName ci)
                in (Inr [r], Suc (uuidCount cra))))
      else if IsNumaBinding ci then
        (case getContainerRegions cra ci of
           Inl err \<Rightarrow> (Inl err, uuidCount cra)
         | Inr regions \<Rightarrow>
             if length regions > 0 then (Inr regions, uuidCount cra)
             else
               (let (regions', n') =
                      createDedicatedRegions pol ci (map fst (TopologyAwareAssignments ci))
                        (uuidCount cra)
                in (Inr regions', n')))
      else (Inr [], uuidCount cra))"

text \<open>
  The inner loop of the callback: add the container to each region and store the region
  under its name; stop at the first \<^verbatim>\<open>AddContainer\<close> error, keeping what was stored.
\<close>

fun addContainerLoop ::
    "region_policies \<Rightarrow> container_info \<Rightarrow> qos_region list \<Rightarrow> (string \<times> qos_region) list
       \<Rightarrow> error option \<times> (string \<times> qos_region) list" where
  "addContainerLoop pol ci [] rm = (None, rm)"
| "addContainerLoop pol ci (r # regions) rm =
     (case AddContainer pol r ci of
        Inl err \<Rightarrow> (Some err, rm)
      | Inr r' \<Rightarrow> addContainerLoop pol ci regions (AList.update (regionName r') r' rm))"

text \<open>
  The callback \<^verbatim>\<open>f\<close> of \<^verbatim>\<open>assignContainersToRegions\<close>, which works on the advisor and on
  the captured \<^verbatim>\<open>errList\<close>. Its first result is the boolean it returns to the MetaCache,
  its second the container info as it leaves it.
\<close>

definition assignCallback ::
    "region_policies \<Rightarrow> container_info \<Rightarrow> cpuResourceAdvisor \<times> error list
       \<Rightarrow> bool \<times> container_info \<times> cpuResourceAdvisor \<times> error list" where
  "assignCallback pol ci st =
     (let (cra, errList) = st;
          (res, n) = assignToRegions pol cra ci;
          cra1 = cra\<lparr>uuidCount := n\<rparr>
      in case res of
           Inl err \<Rightarrow> (True, ci, cra1, errList @ [err])
         | Inr regions \<Rightarrow>
             if regions = [] then (True, ci, cra1, errList)
             else
               (case addContainerLoop pol ci regions (regionMap cra1) of
                  (Some err, rm) \<Rightarrow> (True, ci, cra1\<lparr>regionMap := rm\<rparr>, errList @ [err])
                | (None, rm) \<Rightarrow>
                    (let cra2 = cra1\<lparr>regionMap := rm\<rparr>;
                         ci' = setContainerRegions ci regions
                     in if OwnerPoolName ci' = PoolNameDedicated then (True, ci', cra2, errList)
                        else
                          (case setPoolRegions pol cra2 (OwnerPoolName ci') regions of
                             (Some err, mc) \<Rightarrow>
                               (True, ci', cra2\<lparr>metaCache := mc\<rparr>, errList @ [err])
                           | (None, mc) \<Rightarrow> (True, ci', cra2\<lparr>metaCache := mc\<rparr>, errList)))))"

text \<open>
  Modelled from the spec: \<^verbatim>\<open>RangeAndUpdateContainer\<close> of the MetaCache calls the callback
  on every container info it holds, keeps the container info as the callback leaves it,
  and goes on for as long as the callback returns true.
\<close>

fun rangeContainers ::
    "(container_info \<Rightarrow> 'st \<Rightarrow> bool \<times> container_info \<times> 'st) \<Rightarrow> container_info list \<Rightarrow> 'st
       \<Rightarrow> container_info list \<times> 'st" where
  "rangeContainers f [] st = ([], st)"
| "rangeContainers f (ci # rest) st =
     (case f ci st of
        (continue, ci', st') \<Rightarrow>
          if continue then
            (case rangeContainers f rest st' of (rest', st'') \<Rightarrow> (ci' # rest', st''))
          else (ci' # rest, st'))"

definition RangeAndUpdateContainer ::
    "(container_info \<Rightarrow> cpuResourceAdvisor \<times> error list
        \<Rightarrow> bool \<times> container_info \<times> cpuResourceAdvisor \<times> error list)
       \<Rightarrow> cpuResourceAdvisor \<times> error list \<Rightarrow> cpuResourceAdvisor \<times> error list" where
  "RangeAndUpdateContainer f st =
     (case rangeContainers f (containerEntries (metaCache (fst st))) st of
        (containers', cra', errList') \<Rightarrow>
          (cra'\<lparr>metaCache := (metaCache cra')\<lparr>containerEntries := containers'\<rparr>\<rparr>, errList'))"

definition gc :: "cpuResourceAdvisor \<Rightarrow> cpuResourceAdvisor" where
  "gc cra =
     cra\<lparr>regionMap := filter (\<lambda>(rName, r). \<not> IsEmpty r) (regionMap cra),
         klog := klog cra
           @ map (\<lambda>(rName, r). Info_DeleteRegion rName)
               (filter (\<lambda>(rName, r). IsEmpty r) (regionMap cra))\<rparr>"

definition updateNonBindingNumas :: "cpuResourceAdvisor \<Rightarrow> cpuResourceAdvisor" where
  "updateNonBindingNumas cra =
     (let numas =
            fold (\<lambda>(rName, r) numas.
                    if regionType r = QoSRegionTypeDedicatedNumaExclusive
                    then numas - bindingNumas r else numas)
              (regionMap cra) (systemNumas cra)
      in cra\<lparr>nonBindingNumas := numas,
             regionMap :=
               map (\<lambda>(rName, r).
                      (rName,
                       if regionType r = QoSRegionTypeShare then SetBindingNumas r numas else r))
                 (regionMap cra)\<rparr>)"

text \<open>\<^verbatim>\<open>errors.NewAggregate\<close> is nil for an empty list.\<close>

definition NewAggregate :: "error list \<Rightarrow> error option" where
  "NewAggregate errList = (if errList = [] then None else Some (Aggregate errList))"

definition assignContainersToRegions ::
    "region_policies \<Rightarrow> cpuResourceAdvisor \<Rightarrow> cpuResourceAdvisor \<times> error option" where
  "assignContainersToRegions pol cra =
     (let cra1 = cra\<lparr>regionMap := map (\<lambda>(rName, r). (rName, Clear r)) (regionMap cra)\<rparr>;
          (cra2, errList) = RangeAndUpdateContainer (assignCallback pol) (cra1, []);
          cra3 = gc cra2;
          cra4 = updateNonBindingNumas cra3
      in (cra4, NewAggregate errList))"

subsection \<open>Per-region provisioning\<close>

text \<open>
  The body of the first loop of \<^verbatim>\<open>update\<close>: the essentials of a region, computed from its
  binding NUMAs, the reserve pool info read at the start of the cycle, the machine
  topology and the configuration.
\<close>

definition regionEssentials ::
    "cpuResourceAdvisor \<Rightarrow> pool_info \<Rightarrow> qos_region \<Rightarrow> resource_essentials" where
  "regionEssentials cra reservePoolInfo r =
     (let regionNumas = bindingNumas r;
          regionCPULimit = cpusetSize regionNumas * CPUsPerNuma (metaServer cra);
          regionReservePoolSize =
            sum_list
              (map (\<lambda>numaID.
                      case map_of (poolTopologyAwareAssignments reservePoolInfo) numaID of
                        Some cpus \<Rightarrow> cpusetSize cpus
                      | None \<Rightarrow> 0)
                 (sorted_list_of_set regionNumas));
          reservedForAllocate = confReservedForAllocateCPU (conf cra);
          regionReservedForAllocate =
            ceilDiv (reservedForAllocate * cpusetSize regionNumas) (NumNUMANodes (metaServer cra))
      in \<lparr>Total = regionCPULimit, ReservePoolSize = regionReservePoolSize,
          ReservedForAllocate = regionReservedForAllocate,
          EnableReclaim = confEnableReclaim (conf cra)\<rparr>)"

definition provisionRegions ::
    "region_policies \<Rightarrow> pool_info \<Rightarrow> cpuResourceAdvisor \<Rightarrow> cpuResourceAdvisor" where
  "provisionRegions pol reservePoolInfo cra =
     cra\<lparr>regionMap :=
           map (\<lambda>(rName, r).
                  (rName,
                   TryUpdateProvision pol (metaCache cra)
                     (SetEssentials r (regionEssentials cra reservePoolInfo r))))
             (regionMap cra)\<rparr>"

subsection \<open>Region entries\<close>

fun assembleRegionEntriesLoop ::
    "(string \<times> qos_region) list \<Rightarrow> region_entries \<Rightarrow> error + region_entries" where
  "assembleRegionEntriesLoop [] entries = Inr entries"
| "assembleRegionEntriesLoop ((rName, r) # rs) entries =
     (case provision r of
        Inl err \<Rightarrow> Inl err
      | Inr controlKnobMap \<Rightarrow>
          assembleRegionEntriesLoop rs
            (entries(rName \<mapsto>
               \<lparr>RegionType = regionType r, BindingNumas = bindingNumas r,
                ControlKnobMap = controlKnobMap,
                HeadroomPolicyTopPriority = fst (headRoomPolicy r),
                HeadroomPolicyInUse = snd (headRoomPolicy r),
                ProvisionPolicyTopPriority = fst (provisionPolicyNames r),
                ProvisionPolicyInUse = snd (provisionPolicyNames r)\<rparr>)))"

definition assembleRegionEntries :: "cpuResourceAdvisor \<Rightarrow> error + region_entries" where
  "assembleRegionEntries cra = assembleRegionEntriesLoop (regionMap cra) Map.empty"

subsection \<open>Provision assembly\<close>

text \<open>
  The loop of \<^verbatim>\<open>assembleProvision\<close> over the region map, carrying the pool entries, the
  running \<^verbatim>\<open>nonNumaBindingRequirement\<close> and the messages logged. For a
  dedicated-numa-exclusive region with no binding NUMA, \<^verbatim>\<open>regionNumas[0]\<close> indexes an
  empty slice: Go panics, after the error message has been logged.
\<close>

fun assembleProvisionLoop ::
    "(string \<times> qos_region) list \<Rightarrow> pool_entries \<Rightarrow> int \<Rightarrow> log_entry list
       \<Rightarrow> log_entry list \<times> (pool_entries \<times> int) outcome" where
  "assembleProvisionLoop [] entries nonNumaBindingRequirement lg =
     (lg, Ok (entries, nonNumaBindingRequirement))"
| "assembleProvisionLoop ((rName, r) # rs) entries nonNumaBindingRequirement lg =
     (case provision r of
        Inl err \<Rightarrow> (lg, Fail (GetProvisionWithError err))
      | Inr controlKnob \<Rightarrow>
          (case regionType r of
             QoSRegionTypeShare \<Rightarrow>
               (let sharePoolSize = goInt (knobValueOf controlKnob ControlKnobNonReclaimedCPUSetSize)
                in assembleProvisionLoop rs
                     (entries(PoolNameShare \<mapsto> [FakedNumaID \<mapsto> sharePoolSize]))
                     (nonNumaBindingRequirement + sharePoolSize) lg)
           | QoSRegionTypeDedicatedNumaExclusive \<Rightarrow>
               (let regionNumas = sorted_list_of_set (bindingNumas r);
                    lg' = (if length regionNumas \<noteq> 1
                           then lg @ [Error_InvalidNumaCount (regionName r) regionNumas] else lg);
                    reclaimPoolSize = knobValueOf controlKnob ControlKnobReclaimedCPUSupplied
                in case regionNumas of
                     [] \<Rightarrow> (lg', Panic IndexOutOfRange)
                   | regionNuma # _ \<Rightarrow>
                       (let reclaimEntries =
                              (case entries PoolNameReclaim of None \<Rightarrow> Map.empty | Some m \<Rightarrow> m)
                        in assembleProvisionLoop rs
                             (entries(PoolNameReclaim \<mapsto>
                                reclaimEntries(regionNuma \<mapsto> goInt reclaimPoolSize)))
                             nonNumaBindingRequirement lg'))))"

definition assembleProvision ::
    "cpuResourceAdvisor \<Rightarrow> log_entry list \<times> internal_calculation_result outcome" where
  "assembleProvision cra =
     (let reservePoolSize =
            (case GetPoolSize (metaCache cra) PoolNameReserve of None \<Rightarrow> 0 | Some n \<Rightarrow> n);
          entries0 = [PoolNameReserve \<mapsto> [- 1 \<mapsto> reservePoolSize]]
      in case assembleProvisionLoop (regionMap cra) entries0 0 [] of
           (lg, Fail err) \<Rightarrow> (lg, Fail err)
         | (lg, Panic p) \<Rightarrow> (lg, Panic p)
         | (lg, Ok (entries, nonNumaBindingRequirement)) \<Rightarrow>
             (let reservePoolSizeOfNonBindingNumas =
                    ceilDiv (reservePoolSize * cpusetSize (nonBindingNumas cra))
                      (NumNUMANodes (metaServer cra));
                  reclaimPoolSizeOfNonBindingNumas =
                    cpusetSize (nonBindingNumas cra) * CPUsPerNuma (metaServer cra)
                      - nonNumaBindingRequirement - reservePoolSizeOfNonBindingNumas;
                  reclaimEntries =
                    (case entries PoolNameReclaim of None \<Rightarrow> Map.empty | Some m \<Rightarrow> m)
              in (lg, Ok \<lparr>PoolEntries =
                            entries(PoolNameReclaim \<mapsto>
                              reclaimEntries(FakedNumaID \<mapsto> reclaimPoolSizeOfNonBindingNumas))\<rparr>)))"

subsection \<open>The update cycle\<close>

definition updateHeadrooms :: "region_policies \<Rightarrow> cpuResourceAdvisor \<Rightarrow> cpuResourceAdvisor" where
  "updateHeadrooms pol cra =
     cra\<lparr>regionMap :=
           map (\<lambda>(rName, r). (rName, TryUpdateHeadroom pol (metaCache cra) r))
             (regionMap cra)\<rparr>"

definition logf :: "log_entry list \<Rightarrow> cpuResourceAdvisor \<Rightarrow> cpuResourceAdvisor" where
  "logf entries cra = cra\<lparr>klog := klog cra @ entries\<rparr>"

text \<open>
  One run of \<^verbatim>\<open>update\<close>. \<open>now\<close> is what \<^verbatim>\<open>time.Now()\<close> reads at the startup check. The
  send on the channel is taken to complete (it blocks until the CPU server receives).
  The result is the advisor after the cycle, or the panic that ended it. The cycle holds
  the advisor's lock throughout, so it is one step on the state. The method
  \<^verbatim>\<open>updateHeadroomForRegionEntries\<close> is called from nowhere and has no part in it.
\<close>

definition update ::
    "region_policies \<Rightarrow> int \<Rightarrow> cpuResourceAdvisor \<Rightarrow> go_panic + cpuResourceAdvisor" where
  "update pol now cra =
     (case GetPoolInfo (metaCache cra) PoolNameReserve of
        None \<Rightarrow> Inr (logf [Warning_SkipUpdateReservePoolNotExist] cra)
      | Some reservePoolInfo \<Rightarrow>
          (case assignContainersToRegions pol cra of
             (cra1, Some err) \<Rightarrow> Inr (logf [Error_AssignContainersToRegionsFailed err] cra1)
           | (cra1, None) \<Rightarrow>
               (let cra2 = logf [Info_RegionMap (map fst (regionMap cra1))] cra1;
                    cra3 = provisionRegions pol reservePoolInfo cra2
                in case assembleRegionEntries cra3 of
                     Inl err \<Rightarrow> Inr (logf [Error_AssembleRegionEntriesFailed err] cra3)
                   | Inr entries \<Rightarrow>
                       (let cra4 = cra3\<lparr>metaCache := UpdateRegionEntries (metaCache cra3) entries\<rparr>
                        in if now < startTime cra4 + startUpPeriod then
                             Inr (logf [Info_SkipNotifyingStartingUp] cra4)
                           else
                             (case assembleProvision cra4 of
                                (lg, Panic p) \<Rightarrow> Inl p
                              | (lg, Fail err) \<Rightarrow>
                                  Inr (logf (lg @ [Error_AssembleProvisionFailed err]) cra4)
                              | (lg, Ok plan) \<Rightarrow>
                                  Inr (updateHeadrooms pol
                                         (logf (lg @ [Info_NotifyCPUServer])
                                            (cra4\<lparr>sendCh := sendCh cra4 @ [plan]\<rparr>))))))))"

subsection \<open>Observations and example states\<close>

text \<open>What a cycle leaves behind, read off its result; a cycle that panicked leaves nothing.\<close>

definition observe :: "(cpuResourceAdvisor \<Rightarrow> 'a) \<Rightarrow> go_panic + cpuResourceAdvisor \<Rightarrow> 'a option" where
  "observe f res = (case res of Inl p \<Rightarrow> None | Inr cra \<Rightarrow> Some (f cra))"

definition poolEntry :: "internal_calculation_result \<Rightarrow> string \<Rightarrow> int \<Rightarrow> quantity option" where
  "poolEntry plan poolName numaID =
     (case PoolEntries plan poolName of None \<Rightarrow> None | Some m \<Rightarrow> m numaID)"

definition sentPoolEntries :: "string \<Rightarrow> int \<Rightarrow> cpuResourceAdvisor \<Rightarrow> quantity option list" where
  "sentPoolEntries poolName numaID cra = map (\<lambda>plan. poolEntry plan poolName numaID) (sendCh cra)"

definition regionHeadrooms :: "cpuResourceAdvisor \<Rightarrow> (string \<times> (error + quantity)) list" where
  "regionHeadrooms cra = map (\<lambda>(rName, r). (rName, headroom r)) (regionMap cra)"

definition regionShapes ::
    "cpuResourceAdvisor \<Rightarrow> (string \<times> qos_region_type \<times> cpuset \<times> (string \<times> string) set) list" where
  "regionShapes cra =
     map (\<lambda>(rName, r). (rName, regionType r, bindingNumas r, podSet r)) (regionMap cra)"

text \<open>
  The union of the binding NUMA sets of the dedicated-numa-exclusive regions of a region
  map.
\<close>

definition exclusiveNumas :: "(string \<times> qos_region) list \<Rightarrow> cpuset" where
  "exclusiveNumas rm =
     \<Union> (set (map (bindingNumas \<circ> snd)
              (filter (\<lambda>kr. regionType (snd kr) = QoSRegionTypeDedicatedNumaExclusive) rm)))"

text \<open>
  The running \<^verbatim>\<open>nonNumaBindingRequirement\<close> of a region map: the summed
  \<^verbatim>\<open>non_reclaimed_cpuset_size\<close> knobs of its share regions.
\<close>

definition shareRequirement :: "(string \<times> qos_region) list \<Rightarrow> int" where
  "shareRequirement rm =
     sum_list
       (map (\<lambda>(rName, r).
               case provision r of
                 Inl err \<Rightarrow> 0
               | Inr controlKnob \<Rightarrow> goInt (knobValueOf controlKnob ControlKnobNonReclaimedCPUSetSize))
          (filter (\<lambda>(rName, r). regionType r = QoSRegionTypeShare) rm))"

text \<open>
  The advisor as the first loop of \<^verbatim>\<open>update\<close> leaves it: containers assigned, the region
  map logged, and every region given its essentials and its provision update.
\<close>

definition afterProvisioning ::
    "region_policies \<Rightarrow> pool_info \<Rightarrow> cpuResourceAdvisor \<Rightarrow> cpuResourceAdvisor" where
  "afterProvisioning pol reservePoolInfo cra =
     (let cra1 = fst (assignContainersToRegions pol cra)
      in provisionRegions pol reservePoolInfo
           (logf [Info_RegionMap (map fst (regionMap cra1))] cra1))"

text \<open>
  The error, if any, that the assignment of one container runs into in a given advisor
  state: the error of \<^verbatim>\<open>assignToRegions\<close>, else the first error of \<^verbatim>\<open>AddContainer\<close>, else,
  for a container with regions and an owner pool other than the dedicated one, the error
  of \<^verbatim>\<open>setPoolRegions\<close>.
\<close>

definition containerAssignmentError ::
    "region_policies \<Rightarrow> cpuResourceAdvisor \<Rightarrow> container_info \<Rightarrow> error option" where
  "containerAssignmentError pol cra ci =
     (case fst (assignToRegions pol cra ci) of
        Inl err \<Rightarrow> Some err
      | Inr regions \<Rightarrow>
          (case fst (addContainerLoop pol ci regions (regionMap cra)) of
             Some err \<Rightarrow> Some err
           | None \<Rightarrow>
               if regions = [] \<or> OwnerPoolName ci = PoolNameDedicated then None
               else fst (setPoolRegions pol cra (OwnerPoolName ci) regions)))"

text \<open>
  Every container of a list assigned in turn, each in the advisor its predecessor left
  and with no error on record: the containers as they are left, the advisor after the
  last one, and the errors of all of them in order.
\<close>

fun assignAll ::
    "region_policies \<Rightarrow> container_info list \<Rightarrow> cpuResourceAdvisor
       \<Rightarrow> container_info list \<times> cpuResourceAdvisor \<times> error list" where
  "assignAll pol [] cra = ([], cra, [])"
| "assignAll pol (ci # rest) cra =
     (case assignCallback pol ci (cra, []) of
        (continue, ci', cra', errs) \<Rightarrow>
          (case assignAll pol rest cra' of
             (rest', cra'', errs') \<Rightarrow> (ci' # rest', cra'', errs @ errs')))"

text \<open>The advisor after the first step of the assignment phase: all regions cleared.\<close>

definition clearRegions :: "cpuResourceAdvisor \<Rightarrow> cpuResourceAdvisor" where
  "clearRegions cra = cra\<lparr>regionMap := map (\<lambda>(rName, r). (rName, Clear r)) (regionMap cra)\<rparr>"

text \<open>
  The advisor at the end of the assignment phase, given the containers and the advisor
  that the range over the containers left: container infos written back, empty regions
  collected, non-binding NUMAs recomputed.
\<close>

definition finishAssignment :: "container_info list \<Rightarrow> cpuResourceAdvisor \<Rightarrow> cpuResourceAdvisor" where
  "finishAssignment containers cra =
     updateNonBindingNumas
       (gc (cra\<lparr>metaCache := (metaCache cra)\<lparr>containerEntries := containers\<rparr>\<rparr>))"

text \<open>
  In Go the region map holds pointers, and a region fetched from the map is changed in
  place; the model fetches a copy, changes it and stores it under its name, as the
  callback does with \<^verbatim>\<open>cra.regionMap[r.Name()] = r\<close>. The two agree as long as every
  region is stored under its own name, which holds for the empty map of a new advisor and
  is kept by every cycle.
\<close>

definition keyedByName :: "(string \<times> qos_region) list \<Rightarrow> bool" where
  "keyedByName rm = list_all (\<lambda>(rName, r). regionName r = rName) rm"

text \<open>What a cycle's assignment phase leaves as it is.\<close>

definition sameFrame :: "cpuResourceAdvisor \<Rightarrow> cpuResourceAdvisor \<Rightarrow> bool" where
  "sameFrame c c' =
     (conf c' = conf c \<and> startTime c' = startTime c \<and> systemNumas c' = systemNumas c \<and>
      metaServer c' = metaServer c \<and> sendCh c' = sendCh c \<and>
      regionEntries (metaCache c') = regionEntries (metaCache c))"

text \<open>
  Example policies: a share region is given 3 non-reclaimed CPUs and a headroom of 11,
  a dedicated-numa-exclusive region supplies no reclaimed CPU.
\<close>

definition knob :: "real \<Rightarrow> control_knob_value" where
  "knob v = \<lparr>knobValue = v, knobAction = ''none''\<rparr>"

definition examplePolicies :: region_policies where
  "examplePolicies =
     \<lparr>provisionPolicy =
        (\<lambda>mc r. Inr (if regionType r = QoSRegionTypeShare
                      then [(ControlKnobNonReclaimedCPUSetSize, knob 3)]
                      else [(ControlKnobReclaimedCPUSupplied, knob 0)])),
      headroomPolicy = (\<lambda>mc r. Inr (if regionType r = QoSRegionTypeShare then 11 else 0)),
      initialProvision = Inr [],
      initialHeadroom = Inr 0,
      configuredHeadroomPolicy = (''canonical'', ''canonical''),
      configuredProvisionPolicy = (''canonical'', ''canonical''),
      addContainerError = (\<lambda>r ci. None),
      setPoolInfoError = (\<lambda>mc poolName pool. None),
      newUUID = (\<lambda>n. replicate (Suc n) CHR ''u'')\<rparr>"

text \<open>The same, except that the share region's policy asks for 20 non-reclaimed CPUs.\<close>

definition greedyPolicies :: region_policies where
  "greedyPolicies =
     examplePolicies\<lparr>provisionPolicy :=
       (\<lambda>mc r. Inr (if regionType r = QoSRegionTypeShare
                     then [(ControlKnobNonReclaimedCPUSetSize, knob 20)]
                     else [(ControlKnobReclaimedCPUSupplied, knob 0)]))\<rparr>"

text \<open>The same, except that a dedicated-numa-exclusive region has no provision result.\<close>

definition failingPolicies :: region_policies where
  "failingPolicies =
     examplePolicies\<lparr>provisionPolicy :=
       (\<lambda>mc r. if regionType r = QoSRegionTypeShare
                then Inr [(ControlKnobNonReclaimedCPUSetSize, knob 3)]
                else Inl (RegionError ''no provision result''))\<rparr>"

definition reservePool :: pool_info where
  "reservePool =
     \<lparr>PoolName = ''reserve'', poolTopologyAwareAssignments = [(0, {0}), (1, {8})],
      poolRegionNames = []\<rparr>"

definition sharePool :: pool_info where
  "sharePool =
     \<lparr>PoolName = ''share'', poolTopologyAwareAssignments = [(0, {1, 2, 3}), (1, {9, 10, 11})],
      poolRegionNames = []\<rparr>"

definition batchPool :: pool_info where
  "batchPool =
     \<lparr>PoolName = ''batch'', poolTopologyAwareAssignments = [(1, {12, 13})],
      poolRegionNames = [''share-missing'']\<rparr>"

definition shareContainer :: container_info where
  "shareContainer =
     \<lparr>PodUID = ''pod1'', ContainerName = ''c1'', QoSLevel = ''shared_cores'',
      OwnerPoolName = ''share'', IsNumaBinding = False,
      TopologyAwareAssignments = [(0, {1, 2, 3}), (1, {9, 10, 11})], RegionNames = []\<rparr>"

definition dedicatedContainer :: container_info where
  "dedicatedContainer =
     \<lparr>PodUID = ''pod2'', ContainerName = ''c2'', QoSLevel = ''dedicated_cores'',
      OwnerPoolName = ''dedicated'', IsNumaBinding = True,
      TopologyAwareAssignments = [(0, {1, 2, 3, 4, 5, 6})], RegionNames = []\<rparr>"

definition orphanContainer :: container_info where
  "orphanContainer =
     \<lparr>PodUID = ''pod3'', ContainerName = ''c3'', QoSLevel = ''shared_cores'',
      OwnerPoolName = ''batch'', IsNumaBinding = False,
      TopologyAwareAssignments = [(1, {12, 13})], RegionNames = []\<rparr>"

text \<open>A region that an earlier cycle left in the region map; its container is gone.\<close>

definition staleRegion :: qos_region where
  "staleRegion =
     (NewQoSRegionShare examplePolicies ''share-old'' ''share'')
       \<lparr>podSet := {(''pod0'', ''c0'')}, bindingNumas := {0, 1}, headroom := Inr 5\<rparr>"

definition dedicatedRegion :: qos_region where
  "dedicatedRegion =
     (NewQoSRegionDedicatedNumaExclusive examplePolicies ''dedicated-numa-exclusive-old''
        ''dedicated'' 0)
       \<lparr>podSet := {(''pod2'', ''c2'')}, headroom := Inr 0\<rparr>"

text \<open>
  A 16-CPU machine of 2 NUMA nodes, started at time 0, with a reserve pool of 2 CPUs and
  no container; then with one shared-cores container; with a shared-cores and a
  dedicated NUMA-binding container and a stale region; with a container whose pool names
  a region that does not exist; and with no reserve pool.
\<close>

definition emptyNode :: cpuResourceAdvisor where
  "emptyNode =
     \<lparr>conf = \<lparr>confEnableReclaim = True, confReservedForAllocateCPU = 4\<rparr>,
      startTime = 0, systemNumas = {0, 1}, regionMap = [], nonBindingNumas = {},
      metaCache =
        \<lparr>poolEntries = [''reserve'' \<mapsto> reservePool, ''share'' \<mapsto> sharePool],
         containerEntries = [], regionEntries = Map.empty\<rparr>,
      metaServer = \<lparr>NumCPUs = 16, NumNUMANodes = 2, CPUsPerNuma = 8\<rparr>,
      sendCh = [], klog = [], uuidCount = 0\<rparr>"

definition withContainers ::
    "container_info list \<Rightarrow> cpuResourceAdvisor \<Rightarrow> cpuResourceAdvisor" where
  "withContainers containers cra =
     cra\<lparr>metaCache := (metaCache cra)\<lparr>containerEntries := containers\<rparr>\<rparr>"

definition shareNode :: cpuResourceAdvisor where
  "shareNode = withContainers [shareContainer] emptyNode"

definition mixedNode :: cpuResourceAdvisor where
  "mixedNode =
     (withContainers [shareContainer, dedicatedContainer] emptyNode)
       \<lparr>regionMap := [(''share-old'', staleRegion)]\<rparr>"

definition orphanNode :: cpuResourceAdvisor where
  "orphanNode =
     (withContainers [orphanContainer, shareContainer] emptyNode)
       \<lparr>metaCache :=
          \<lparr>poolEntries =
             [''reserve'' \<mapsto> reservePool, ''share'' \<mapsto> sharePool, ''batch'' \<mapsto> batchPool],
           containerEntries = [orphanContainer, shareContainer], regionEntries = Map.empty\<rparr>\<rparr>"

definition noReserveNode :: cpuResourceAdvisor where
  "noReserveNode =
     (withContainers [shareContainer] emptyNode)
       \<lparr>metaCache :=
          \<lparr>poolEntries = [''share'' \<mapsto> sharePool],
           containerEntries = [shareContainer], regionEntries = Map.empty\<rparr>,
        regionMap := [(''share-old'', staleRegion)], nonBindingNumas := {0, 1}\<rparr>"

definition dedicatedNode :: cpuResourceAdvisor where
  "dedicatedNode =
     emptyNode\<lparr>regionMap := [(''dedicated-numa-exclusive-old'', dedicatedRegion)],
               nonBindingNumas := {1}\<rparr>"

text \<open>Two readings of the clock: 10 s and 40 s after the advisor was constructed.\<close>

definition duringStartUp :: int where
  "duringStartUp = 10 * 1000000000"

definition afterStartUp :: int where
  "afterStartUp = 40 * 1000000000"

lemmas model_defs =
  update_def GetPoolInfo_def assignContainersToRegions_def RangeAndUpdateContainer_def
  assignCallback_def assignToRegions_def getPoolRegions_def getContainerRegions_def
  NewQoSRegionShare_def NewQoSRegionDedicatedNumaExclusive_def newRegion_def AddContainer_def
  setContainerRegions_def setPoolRegions_def SetPoolInfo_def gc_def IsEmpty_def
  updateNonBindingNumas_def SetBindingNumas_def NewAggregate_def Clear_def logf_def
  provisionRegions_def regionEssentials_def SetEssentials_def TryUpdateProvision_def
  cpusetSize_def ceilDiv_def assembleRegionEntries_def UpdateRegionEntries_def
  assembleProvision_def GetPoolSize_def updateHeadrooms_def TryUpdateHeadroom_def goInt_def
  knobValueOf_def GetHeadroom_def

lemmas constant_defs =
  startUpPeriod_def regionNameSeparator_def PoolNameReserve_def PoolNameShare_def
  PoolNameReclaim_def PoolNameDedicated_def FakedNumaID_def
  PodAnnotationQoSLevelSharedCores_def ControlKnobNonReclaimedCPUSetSize_def
  ControlKnobReclaimedCPUSupplied_def

lemmas example_defs =
  knob_def examplePolicies_def greedyPolicies_def failingPolicies_def reservePool_def
  sharePool_def batchPool_def shareContainer_def dedicatedContainer_def orphanContainer_def
  staleRegion_def dedicatedRegion_def emptyNode_def withContainers_def shareNode_def
  mixedNode_def orphanNode_def noReserveNode_def dedicatedNode_def duringStartUp_def
  afterStartUp_def

lemmas observation_defs =
  observe_def poolEntry_def sentPoolEntries_def regionHeadrooms_def regionShapes_def
  afterProvisioning_def containerAssignmentError_def clearRegions_def finishAssignment_def

lemmas all_defs = model_defs constant_defs example_defs observation_defs

section \<open>Properties\<close>

subsection \<open>The public getter\<close>

text \<open>
  Claim C6. When the region map is empty and the reserve pool exists in the MetaCache,
  \<^verbatim>\<open>GetHeadroom\<close> returns exactly the machine's CPU count minus the reserve pool size,
  and no error.
\<close>

theorem GetHeadroom_empty_region_map:
  assumes "regionMap cra = []"
    and "GetPoolSize (metaCache cra) PoolNameReserve = Some reservePoolSize"
  shows "GetHeadroom cra = Inr (NumCPUs (metaServer cra) - reservePoolSize)"
  using assms by (simp add: GetHeadroom_def)

theorem GetHeadroom_empty_region_map_witness:
  "regionMap emptyNode = []
   \<and> GetPoolSize (metaCache emptyNode) PoolNameReserve = Some 2
   \<and> GetHeadroom emptyNode = Inr 14"
proof -
  have h1: "regionMap emptyNode = []"
    by (simp add: emptyNode_def)
  have h2: "GetPoolSize (metaCache emptyNode) PoolNameReserve = Some 2"
    by (simp add: emptyNode_def GetPoolSize_def PoolNameReserve_def reservePool_def cpusetSize_def)
  have "GetHeadroom emptyNode = Inr (NumCPUs (metaServer emptyNode) - 2)"
    by (rule GetHeadroom_empty_region_map [OF h1 h2])
  then show ?thesis using h1 h2 by (simp add: emptyNode_def)
qed

text \<open>
  Claim C10. While the reserve pool is absent from the MetaCache, \<^verbatim>\<open>GetHeadroom\<close>
  returns the error "reserve pool not exist", whatever the region map holds; on the same
  condition the update cycle only logs a warning and returns.
\<close>

theorem GetHeadroom_reserve_pool_absent:
  assumes "poolEntries (metaCache cra) PoolNameReserve = None"
  shows "GetHeadroom cra = Inl ReservePoolNotExist
       \<and> update pol now cra = Inr (logf [Warning_SkipUpdateReservePoolNotExist] cra)"
  using assms by (simp add: GetHeadroom_def GetPoolSize_def update_def GetPoolInfo_def)

theorem GetHeadroom_reserve_pool_absent_witness:
  "poolEntries (metaCache noReserveNode) PoolNameReserve = None
   \<and> regionMap noReserveNode \<noteq> []
   \<and> GetHeadroom noReserveNode = Inl ReservePoolNotExist"
proof -
  have h: "poolEntries (metaCache noReserveNode) PoolNameReserve = None"
    by (simp add: noReserveNode_def PoolNameReserve_def)
  have "GetHeadroom noReserveNode = Inl ReservePoolNotExist"
    by (rule GetHeadroom_reserve_pool_absent [OF h, THEN conjunct1])
  then show ?thesis using h by (simp add: noReserveNode_def)
qed

lemma headroomLoop_all_succeed:
  "map (headroom \<circ> snd) rm = map Inr hs \<Longrightarrow>
   headroomLoop rm b t =
     Inr (b \<or> QoSRegionTypeShare \<in> set (map (regionType \<circ> snd) rm), t + sum_list hs)"
proof (induction rm arbitrary: hs b t)
  case Nil
  then show ?case by simp
next
  case (Cons kr rm)
  obtain k r where kr: "kr = (k, r)" by (cases kr)
  from Cons.prems obtain h hs' where hs: "hs = h # hs'" "headroom r = Inr h"
      "map (headroom \<circ> snd) rm = map Inr hs'"
    using kr by (cases hs) (auto simp: comp_def)
  show ?case using Cons.IH [OF hs(3)] hs(1,2) kr by auto
qed

text \<open>
  Claim C9. When the region map is not empty, every region's \<^verbatim>\<open>GetHeadroom\<close> succeeds
  (with the values \<open>hs\<close>) and the reserve pool exists, \<^verbatim>\<open>GetHeadroom\<close> returns the sum of
  the regions' headrooms; if no region is a share region, it adds the number of
  non-binding NUMAs times the CPUs per NUMA, minus the ceiling of the reserve pool size
  times the number of non-binding NUMAs over the number of NUMA nodes; if a share region
  is present, it adds nothing. The number of NUMA nodes is positive.
\<close>

theorem GetHeadroom_sums_region_headrooms:
  assumes "regionMap cra \<noteq> []"
    and "map (headroom \<circ> snd) (regionMap cra) = map Inr hs"
    and "GetPoolSize (metaCache cra) PoolNameReserve = Some reservePoolSize"
    and "0 < NumNUMANodes (metaServer cra)"
  shows "GetHeadroom cra =
           Inr (if QoSRegionTypeShare \<in> set (map (regionType \<circ> snd) (regionMap cra))
                then sum_list hs
                else sum_list hs
                     + (int (card (nonBindingNumas cra)) * CPUsPerNuma (metaServer cra)
                        - \<lceil>real_of_int (reservePoolSize * int (card (nonBindingNumas cra)))
                             / real_of_int (NumNUMANodes (metaServer cra))\<rceil>))"
  using assms headroomLoop_all_succeed [OF assms(2), of False 0]
  by (simp add: GetHeadroom_def Let_def ceilDiv_def cpusetSize_def)

theorem GetHeadroom_sums_region_headrooms_witness:
  "regionMap dedicatedNode \<noteq> []
   \<and> map (headroom \<circ> snd) (regionMap dedicatedNode) = map Inr [0]
   \<and> GetPoolSize (metaCache dedicatedNode) PoolNameReserve = Some 2
   \<and> 0 < NumNUMANodes (metaServer dedicatedNode)
   \<and> QoSRegionTypeShare \<notin> set (map (regionType \<circ> snd) (regionMap dedicatedNode))
   \<and> GetHeadroom dedicatedNode = Inr (0 + (1 * 8 - 1))"
proof -
  have h1: "regionMap dedicatedNode \<noteq> []"
    by (simp add: dedicatedNode_def)
  have h2: "map (headroom \<circ> snd) (regionMap dedicatedNode) = map Inr [0]"
    by (simp add: dedicatedNode_def dedicatedRegion_def)
  have h3: "GetPoolSize (metaCache dedicatedNode) PoolNameReserve = Some 2"
    by (simp add: dedicatedNode_def emptyNode_def GetPoolSize_def PoolNameReserve_def
        reservePool_def cpusetSize_def)
  have h4: "0 < NumNUMANodes (metaServer dedicatedNode)"
    by (simp add: dedicatedNode_def emptyNode_def)
  have h5: "QoSRegionTypeShare \<notin> set (map (regionType \<circ> snd) (regionMap dedicatedNode))"
    by (simp add: dedicatedNode_def dedicatedRegion_def NewQoSRegionDedicatedNumaExclusive_def
        newRegion_def)
  have g: "GetHeadroom dedicatedNode = Inr 7"
    using GetHeadroom_sums_region_headrooms [OF h1 h2 h3 h4] h5
    by (simp add: dedicatedNode_def emptyNode_def)
  show ?thesis using h1 h2 h3 h4 h5 g by simp
qed

subsection \<open>The update cycle without a reserve pool\<close>

text \<open>
  Claim C7. If the reserve pool is absent from the MetaCache, the update cycle changes
  nothing but the log, to which it adds one warning: the region map, the non-binding NUMA
  set and the whole MetaCache (the containers' and pools' region names, the region
  entries) are as before, nothing is sent, and the cycle returns normally.
\<close>

theorem update_reserve_pool_absent:
  assumes "poolEntries (metaCache cra) PoolNameReserve = None"
  shows "update pol now cra =
           Inr (cra\<lparr>klog := klog cra @ [Warning_SkipUpdateReservePoolNotExist]\<rparr>)"
  using assms by (simp add: update_def GetPoolInfo_def logf_def)

theorem update_reserve_pool_absent_witness:
  "poolEntries (metaCache noReserveNode) PoolNameReserve = None
   \<and> observe regionMap (update examplePolicies afterStartUp noReserveNode)
       = Some (regionMap noReserveNode)
   \<and> observe nonBindingNumas (update examplePolicies afterStartUp noReserveNode)
       = Some (nonBindingNumas noReserveNode)
   \<and> observe metaCache (update examplePolicies afterStartUp noReserveNode)
       = Some (metaCache noReserveNode)
   \<and> observe sendCh (update examplePolicies afterStartUp noReserveNode) = Some []
   \<and> observe klog (update examplePolicies afterStartUp noReserveNode)
       = Some [Warning_SkipUpdateReservePoolNotExist]"
proof -
  have h: "poolEntries (metaCache noReserveNode) PoolNameReserve = None"
    by (simp add: noReserveNode_def PoolNameReserve_def)
  have u: "update examplePolicies afterStartUp noReserveNode
      = Inr (noReserveNode\<lparr>klog := klog noReserveNode @ [Warning_SkipUpdateReservePoolNotExist]\<rparr>)"
    by (rule update_reserve_pool_absent [OF h])
  have "sendCh noReserveNode = []" "klog noReserveNode = []"
    by (simp_all add: noReserveNode_def emptyNode_def withContainers_def)
  then show ?thesis using h by (simp add: u observe_def)
qed

subsection \<open>The assignment phase: helper lemmas\<close>

lemma sameFrame_refl: "sameFrame c c"
  by (simp add: sameFrame_def)

lemma sameFrame_trans: "sameFrame a b \<Longrightarrow> sameFrame b c \<Longrightarrow> sameFrame a c"
  by (simp add: sameFrame_def)

lemma assignCallback_continue: "fst (assignCallback pol ci st)"
  by (auto simp: assignCallback_def Let_def split: prod.splits sum.splits option.splits)

lemma setPoolRegions_regionEntries:
  "setPoolRegions pol cra poolName regions = (e, mc) \<Longrightarrow>
   regionEntries mc = regionEntries (metaCache cra)"
  by (auto simp: setPoolRegions_def SetPoolInfo_def GetPoolInfo_def Let_def
      split: option.splits prod.splits if_splits)

lemma assignCallback_frame:
  "assignCallback pol ci (cra, errs) = (b, ci', cra', errs') \<Longrightarrow> sameFrame cra cra'"
  by (auto simp: assignCallback_def Let_def sameFrame_def dest: setPoolRegions_regionEntries
      split: prod.splits sum.splits option.splits if_splits)

lemma rangeContainers_frame:
  "rangeContainers (assignCallback pol) cs (cra, errs) = (cs', cra', errs') \<Longrightarrow> sameFrame cra cra'"
proof (induction cs arbitrary: cra errs cs' cra' errs')
  case Nil
  then show ?case by (simp add: sameFrame_refl)
next
  case (Cons ci cs)
  obtain b ci1 cra1 errs1 where f: "assignCallback pol ci (cra, errs) = (b, ci1, cra1, errs1)"
    by (metis prod_cases4)
  have b: "b" using assignCallback_continue [of pol ci "(cra, errs)"] f by simp
  obtain cs2 cra2 errs2 where r:
    "rangeContainers (assignCallback pol) cs (cra1, errs1) = (cs2, cra2, errs2)"
    by (metis prod_cases3)
  from Cons.prems f b r have "cra' = cra2" by simp
  with Cons.IH [OF r] assignCallback_frame [OF f] show ?case
    by (blast intro: sameFrame_trans)
qed

lemma assign_frame: "sameFrame cra (fst (assignContainersToRegions pol cra))"
proof -
  let ?cra1 = "cra\<lparr>regionMap := map (\<lambda>(rName, r). (rName, Clear r)) (regionMap cra)\<rparr>"
  obtain cs2 cra2 errs2 where r:
    "rangeContainers (assignCallback pol) (containerEntries (metaCache ?cra1)) (?cra1, [])
      = (cs2, cra2, errs2)"
    by (metis prod_cases3)
  have "sameFrame ?cra1 cra2" by (rule rangeContainers_frame [OF r])
  then show ?thesis using r
    by (simp add: assignContainersToRegions_def RangeAndUpdateContainer_def gc_def
        updateNonBindingNumas_def Let_def sameFrame_def)
qed

text \<open>All containers are visited: ranging over a list is ranging over its parts in turn.\<close>

lemma rangeContainers_append:
  "rangeContainers (assignCallback pol) (cs1 @ cs2) st =
     (case rangeContainers (assignCallback pol) cs1 st of
        (cs1', st') \<Rightarrow>
          (case rangeContainers (assignCallback pol) cs2 st' of
             (cs2', st'') \<Rightarrow> (cs1' @ cs2', st'')))"
proof (induction cs1 arbitrary: st)
  case Nil
  then show ?case by (simp split: prod.splits)
next
  case (Cons ci cs1)
  obtain b ci1 st1 where f: "assignCallback pol ci st = (b, ci1, st1)"
    by (metis prod_cases3)
  have b: "b" using assignCallback_continue [of pol ci st] f by simp
  show ?case using f b Cons.IH [of st1] by (simp split: prod.splits)
qed

lemma assign_no_empty:
  "(k, r) \<in> set (regionMap (fst (assignContainersToRegions pol cra))) \<Longrightarrow> \<not> IsEmpty r"
  by (auto simp: assignContainersToRegions_def gc_def updateNonBindingNumas_def Let_def IsEmpty_def
      SetBindingNumas_def split: prod.splits if_splits)

lemma fold_difference:
  "fold (\<lambda>(rName, r) numas.
           if regionType r = QoSRegionTypeDedicatedNumaExclusive then numas - bindingNumas r
           else numas) rm A
   = A - exclusiveNumas rm"
  unfolding exclusiveNumas_def
  by (induction rm arbitrary: A) (auto split: if_splits)

lemma exclusiveNumas_set_share:
  "exclusiveNumas
     (map (\<lambda>(rName, r).
             (rName, if regionType r = QoSRegionTypeShare then SetBindingNumas r numas else r)) rm)
   = exclusiveNumas rm"
proof (induction rm)
  case Nil
  then show ?case by simp
next
  case (Cons kr rm)
  obtain k r where kr: "kr = (k, r)" by (cases kr)
  show ?case
  proof (cases "regionType r")
    case QoSRegionTypeShare
    with Cons kr show ?thesis by (simp add: exclusiveNumas_def SetBindingNumas_def)
  next
    case QoSRegionTypeDedicatedNumaExclusive
    with Cons kr show ?thesis by (simp add: exclusiveNumas_def)
  qed
qed

lemma updateNonBindingNumas_nonBinding:
  "nonBindingNumas (updateNonBindingNumas cra)
     = systemNumas cra - exclusiveNumas (regionMap (updateNonBindingNumas cra))"
  by (simp add: updateNonBindingNumas_def Let_def fold_difference exclusiveNumas_set_share)

lemma updateNonBindingNumas_share:
  assumes "(k, r) \<in> set (regionMap (updateNonBindingNumas cra))"
    and "regionType r = QoSRegionTypeShare"
  shows "bindingNumas r = nonBindingNumas (updateNonBindingNumas cra)"
  using assms
  by (auto simp: updateNonBindingNumas_def Let_def SetBindingNumas_def split: if_splits)

lemma updateNonBindingNumas_systemNumas:
  "systemNumas (updateNonBindingNumas cra) = systemNumas cra"
  by (simp add: updateNonBindingNumas_def Let_def)

lemma assign_is_updateNonBindingNumas:
  "\<exists>c. fst (assignContainersToRegions pol cra) = updateNonBindingNumas c \<and> systemNumas c = systemNumas cra"
proof -
  let ?cra1 = "cra\<lparr>regionMap := map (\<lambda>(rName, r). (rName, Clear r)) (regionMap cra)\<rparr>"
  obtain cs2 cra2 errs2 where r:
    "rangeContainers (assignCallback pol) (containerEntries (metaCache ?cra1)) (?cra1, [])
      = (cs2, cra2, errs2)"
    by (metis prod_cases3)
  have "sameFrame ?cra1 cra2" by (rule rangeContainers_frame [OF r])
  then show ?thesis using r
    by (auto simp add: assignContainersToRegions_def RangeAndUpdateContainer_def gc_def
         Let_def sameFrame_def)
qed

lemma assign_nonBinding:
  "nonBindingNumas (fst (assignContainersToRegions pol cra))
     = systemNumas cra - exclusiveNumas (regionMap (fst (assignContainersToRegions pol cra)))"
proof -
  obtain c where c: "fst (assignContainersToRegions pol cra) = updateNonBindingNumas c"
      "systemNumas c = systemNumas cra"
    using assign_is_updateNonBindingNumas by blast
  show ?thesis
    unfolding c(1) using updateNonBindingNumas_nonBinding [of c] c(2) by simp
qed

lemma assign_share:
  assumes "(k, r) \<in> set (regionMap (fst (assignContainersToRegions pol cra)))"
    and "regionType r = QoSRegionTypeShare"
  shows "bindingNumas r = nonBindingNumas (fst (assignContainersToRegions pol cra))"
proof -
  obtain c where c: "fst (assignContainersToRegions pol cra) = updateNonBindingNumas c"
    using assign_is_updateNonBindingNumas by blast
  show ?thesis
    using assms unfolding c by (rule updateNonBindingNumas_share)
qed

subsection \<open>The phases after assignment: helper lemmas\<close>

lemma regionShapes_logf [simp]: "regionShapes (logf l c) = regionShapes c"
  by (simp add: regionShapes_def logf_def)

lemma regionShapes_provisionRegions [simp]:
  "regionShapes (provisionRegions pol p c) = regionShapes c"
  by (simp add: regionShapes_def provisionRegions_def TryUpdateProvision_def SetEssentials_def
      split_def comp_def)

lemma regionShapes_updateHeadrooms [simp]:
  "regionShapes (updateHeadrooms pol c) = regionShapes c"
  by (simp add: regionShapes_def updateHeadrooms_def TryUpdateHeadroom_def split_def comp_def)

lemma regionShapes_other_fields [simp]:
  "regionShapes (c\<lparr>metaCache := mc\<rparr>) = regionShapes c"
  "regionShapes (c\<lparr>sendCh := sc\<rparr>) = regionShapes c"
  by (simp_all add: regionShapes_def)

lemma numas_phases [simp]:
  "nonBindingNumas (logf l c) = nonBindingNumas c"
  "nonBindingNumas (provisionRegions pol p c) = nonBindingNumas c"
  "nonBindingNumas (updateHeadrooms pol c) = nonBindingNumas c"
  "systemNumas (logf l c) = systemNumas c"
  "systemNumas (provisionRegions pol p c) = systemNumas c"
  "systemNumas (updateHeadrooms pol c) = systemNumas c"
  by (simp_all add: logf_def provisionRegions_def updateHeadrooms_def)

text \<open>The five ways in which a cycle that found the reserve pool ends.\<close>

lemma update_cases:
  assumes p: "poolEntries (metaCache cra) PoolNameReserve = Some reservePoolInfo"
    and a: "assignContainersToRegions pol cra = (cra1, e)"
    and c3: "cra3 = provisionRegions pol reservePoolInfo (logf [Info_RegionMap (map fst (regionMap cra1))] cra1)"
  shows "(\<exists>err. e = Some err
            \<and> update pol now cra = Inr (logf [Error_AssignContainersToRegionsFailed err] cra1))
       \<or> (\<exists>err. e = None \<and> assembleRegionEntries cra3 = Inl err
            \<and> update pol now cra = Inr (logf [Error_AssembleRegionEntriesFailed err] cra3))
       \<or> (\<exists>entries. e = None \<and> assembleRegionEntries cra3 = Inr entries
            \<and> now < startTime cra3 + startUpPeriod
            \<and> update pol now cra =
                Inr (logf [Info_SkipNotifyingStartingUp]
                       (cra3\<lparr>metaCache := UpdateRegionEntries (metaCache cra3) entries\<rparr>)))
       \<or> (\<exists>entries lg x. e = None \<and> assembleRegionEntries cra3 = Inr entries
            \<and> \<not> now < startTime cra3 + startUpPeriod
            \<and> assembleProvision (cra3\<lparr>metaCache := UpdateRegionEntries (metaCache cra3) entries\<rparr>)
                = (lg, x)
            \<and> (case x of
                  Panic pn \<Rightarrow> update pol now cra = Inl pn
                | Fail err \<Rightarrow>
                    update pol now cra =
                      Inr (logf (lg @ [Error_AssembleProvisionFailed err])
                             (cra3\<lparr>metaCache := UpdateRegionEntries (metaCache cra3) entries\<rparr>))
                | Ok plan \<Rightarrow>
                    update pol now cra =
                      Inr (updateHeadrooms pol
                             (logf (lg @ [Info_NotifyCPUServer])
                                (cra3\<lparr>metaCache := UpdateRegionEntries (metaCache cra3) entries,
                                      sendCh := sendCh cra3 @ [plan]\<rparr>)))))"
proof (cases e)
  case (Some err)
  then show ?thesis using p a by (simp add: update_def GetPoolInfo_def)
next
  case None
  note e = None
  have u: "update pol now cra =
     (case assembleRegionEntries cra3 of
        Inl err \<Rightarrow> Inr (logf [Error_AssembleRegionEntriesFailed err] cra3)
      | Inr entries \<Rightarrow>
          (let cra4 = cra3\<lparr>metaCache := UpdateRegionEntries (metaCache cra3) entries\<rparr>
           in if now < startTime cra4 + startUpPeriod then
                Inr (logf [Info_SkipNotifyingStartingUp] cra4)
              else
                (case assembleProvision cra4 of
                   (lg, Panic p) \<Rightarrow> Inl p
                 | (lg, Fail err) \<Rightarrow>
                     Inr (logf (lg @ [Error_AssembleProvisionFailed err]) cra4)
                 | (lg, Ok plan) \<Rightarrow>
                     Inr (updateHeadrooms pol
                            (logf (lg @ [Info_NotifyCPUServer])
                               (cra4\<lparr>sendCh := sendCh cra4 @ [plan]\<rparr>))))))"
    using p a e unfolding c3 by (simp add: update_def GetPoolInfo_def Let_def)
  show ?thesis
  proof (cases "assembleRegionEntries cra3")
    case (Inl err)
    then show ?thesis using u e by simp
  next
    case (Inr entries)
    note ent = Inr
    show ?thesis
    proof (cases "now < startTime cra3 + startUpPeriod")
      case True
      then show ?thesis using u e ent by (simp add: Let_def)
    next
      case False
      obtain lg x where ap:
        "assembleProvision (cra3\<lparr>metaCache := UpdateRegionEntries (metaCache cra3) entries\<rparr>) = (lg, x)"
        by (cases "assembleProvision (cra3\<lparr>metaCache := UpdateRegionEntries (metaCache cra3) entries\<rparr>)")
      have "case x of
                  Panic pn \<Rightarrow> update pol now cra = Inl pn
                | Fail err \<Rightarrow>
                    update pol now cra =
                      Inr (logf (lg @ [Error_AssembleProvisionFailed err])
                             (cra3\<lparr>metaCache := UpdateRegionEntries (metaCache cra3) entries\<rparr>))
                | Ok plan \<Rightarrow>
                    update pol now cra =
                      Inr (updateHeadrooms pol
                             (logf (lg @ [Info_NotifyCPUServer])
                                (cra3\<lparr>metaCache := UpdateRegionEntries (metaCache cra3) entries,
                                      sendCh := sendCh cra3 @ [plan]\<rparr>)))"
        using u ent False ap by (cases x) (simp_all add: Let_def)
      then show ?thesis using e ent False ap by simp
    qed
  qed
qed


lemma update_after_assignment:
  assumes "poolEntries (metaCache cra) PoolNameReserve \<noteq> None"
    and "update pol now cra = Inr cra'"
  shows "regionShapes cra' = regionShapes (fst (assignContainersToRegions pol cra))
         \<and> nonBindingNumas cra' = nonBindingNumas (fst (assignContainersToRegions pol cra))
         \<and> systemNumas cra' = systemNumas cra"
proof -
  obtain reservePoolInfo where p: "poolEntries (metaCache cra) PoolNameReserve = Some reservePoolInfo"
    using assms(1) by blast
  obtain cra1 e where a: "assignContainersToRegions pol cra = (cra1, e)"
    by (cases "assignContainersToRegions pol cra")
  define cra3 where
    "cra3 = provisionRegions pol reservePoolInfo (logf [Info_RegionMap (map fst (regionMap cra1))] cra1)"
  have "sameFrame cra (fst (assignContainersToRegions pol cra))"
    by (rule assign_frame)
  then have s: "systemNumas cra1 = systemNumas cra"
    unfolding a by (simp add: sameFrame_def)
  have c3: "regionShapes cra3 = regionShapes cra1" "nonBindingNumas cra3 = nonBindingNumas cra1"
      "systemNumas cra3 = systemNumas cra"
    using s by (simp_all add: cra3_def)
  have goal: "regionShapes c = regionShapes cra1 \<and> nonBindingNumas c = nonBindingNumas cra1
      \<and> systemNumas c = systemNumas cra \<Longrightarrow> update pol now cra = Inr c \<Longrightarrow> ?thesis" for c
    using assms(2) unfolding a by simp
  note cases = update_cases [OF p a cra3_def, of now]
  from cases show ?thesis
  proof (elim disjE exE conjE)
    fix err
    assume u: "update pol now cra = Inr (logf [Error_AssignContainersToRegionsFailed err] cra1)"
    show ?thesis by (rule goal [OF _ u]) (simp add: s)
  next
    fix err
    assume u: "update pol now cra = Inr (logf [Error_AssembleRegionEntriesFailed err] cra3)"
    show ?thesis by (rule goal [OF _ u]) (simp add: c3)
  next
    fix entries
    assume u: "update pol now cra =
              Inr (logf [Info_SkipNotifyingStartingUp]
                     (cra3\<lparr>metaCache := UpdateRegionEntries (metaCache cra3) entries\<rparr>))"
    show ?thesis by (rule goal [OF _ u]) (simp add: c3)
  next
    fix entries lg x
    assume x: "case x of
                  Panic pn \<Rightarrow> update pol now cra = Inl pn
                | Fail err \<Rightarrow>
                    update pol now cra =
                      Inr (logf (lg @ [Error_AssembleProvisionFailed err])
                             (cra3\<lparr>metaCache := UpdateRegionEntries (metaCache cra3) entries\<rparr>))
                | Ok plan \<Rightarrow>
                    update pol now cra =
                      Inr (updateHeadrooms pol
                             (logf (lg @ [Info_NotifyCPUServer])
                                (cra3\<lparr>metaCache := UpdateRegionEntries (metaCache cra3) entries,
                                      sendCh := sendCh cra3 @ [plan]\<rparr>)))"
    show ?thesis
    proof (cases x)
      case (Ok plan)
      with x have u: "update pol now cra =
                      Inr (updateHeadrooms pol
                             (logf (lg @ [Info_NotifyCPUServer])
                                (cra3\<lparr>metaCache := UpdateRegionEntries (metaCache cra3) entries,
                                      sendCh := sendCh cra3 @ [plan]\<rparr>)))" by simp
      show ?thesis by (rule goal [OF _ u]) (simp add: c3)
    next
      case (Fail err)
      with x have u: "update pol now cra =
                      Inr (logf (lg @ [Error_AssembleProvisionFailed err])
                             (cra3\<lparr>metaCache := UpdateRegionEntries (metaCache cra3) entries\<rparr>))"
        by simp
      show ?thesis by (rule goal [OF _ u]) (simp add: c3)
    next
      case (Panic pn)
      with x assms(2) show ?thesis by simp
    qed
  qed
qed

lemma regionShapes_mem:
  "(k, r) \<in> set (regionMap c) \<Longrightarrow>
   (k, regionType r, bindingNumas r, podSet r) \<in> set (regionShapes c)"
  by (force simp: regionShapes_def)

lemma regionShapes_memD:
  "(k, t, b, p) \<in> set (regionShapes c) \<Longrightarrow>
   \<exists>r. (k, r) \<in> set (regionMap c) \<and> regionType r = t \<and> bindingNumas r = b \<and> podSet r = p"
  by (auto simp: regionShapes_def)

lemma exclusiveNumas_Cons:
  "exclusiveNumas ((k, r) # rm) =
     (if regionType r = QoSRegionTypeDedicatedNumaExclusive then bindingNumas r \<union> exclusiveNumas rm
      else exclusiveNumas rm)"
  by (simp add: exclusiveNumas_def)

lemma exclusiveNumas_cong_list:
  "map (\<lambda>(rName, r). (rName, regionType r, bindingNumas r, podSet r)) rm
     = map (\<lambda>(rName, r). (rName, regionType r, bindingNumas r, podSet r)) rm'
   \<Longrightarrow> exclusiveNumas rm = exclusiveNumas rm'"
proof (induction rm arbitrary: rm')
  case Nil
  then show ?case by simp
next
  case (Cons kr rm)
  obtain k r where kr: "kr = (k, r)" by (cases kr)
  from Cons.prems obtain kr' rm'' where rm': "rm' = kr' # rm''" by (cases rm') auto
  obtain k' r' where kr': "kr' = (k', r')" by (cases kr')
  from Cons.prems kr rm' kr' have h: "regionType r' = regionType r" "bindingNumas r' = bindingNumas r"
      "map (\<lambda>(rName, r). (rName, regionType r, bindingNumas r, podSet r)) rm
        = map (\<lambda>(rName, r). (rName, regionType r, bindingNumas r, podSet r)) rm''"
    by simp_all
  show ?case using Cons.IH [OF h(3)] h(1,2) kr rm' kr' by (simp add: exclusiveNumas_Cons)
qed

lemma exclusiveNumas_cong:
  "regionShapes c = regionShapes c' \<Longrightarrow> exclusiveNumas (regionMap c) = exclusiveNumas (regionMap c')"
  unfolding regionShapes_def by (rule exclusiveNumas_cong_list)

lemma exclusiveNumas_eq:
  "exclusiveNumas rm =
     \<Union> {bindingNumas r | k r. (k, r) \<in> set rm \<and> regionType r = QoSRegionTypeDedicatedNumaExclusive}"
proof (induction rm)
  case Nil
  then show ?case by (simp add: exclusiveNumas_def)
next
  case (Cons kr rm)
  obtain k r where kr: "kr = (k, r)" by (cases kr)
  have "{bindingNumas r' | k' r'. (k', r') \<in> set ((k, r) # rm)
            \<and> regionType r' = QoSRegionTypeDedicatedNumaExclusive}
      = (if regionType r = QoSRegionTypeDedicatedNumaExclusive then {bindingNumas r} else {})
        \<union> {bindingNumas r' | k' r'. (k', r') \<in> set rm
            \<and> regionType r' = QoSRegionTypeDedicatedNumaExclusive}"
    by auto
  then show ?case using Cons.IH kr by (simp add: exclusiveNumas_Cons)
qed

lemma observe_SomeD: "observe f res = Some v \<Longrightarrow> \<exists>cra'. res = Inr cra' \<and> f cra' = v"
  by (cases res) (simp_all add: observe_def)

subsection \<open>The region map is keyed by region name\<close>

lemma keyedByName_iff: "keyedByName rm \<longleftrightarrow> (\<forall>(k, r) \<in> set rm. regionName r = k)"
  by (simp add: keyedByName_def list_all_iff)

lemma set_update_cases:
  "x \<in> set (AList.update k v rm) \<Longrightarrow> x = (k, v) \<or> x \<in> set rm"
  by (induction rm) (auto split: if_splits)

lemma keyedByName_update:
  "keyedByName rm \<Longrightarrow> keyedByName (AList.update (regionName r) r rm)"
  unfolding keyedByName_iff using set_update_cases by fastforce

lemma AddContainer_regionName:
  "AddContainer pol r ci = Inr r' \<Longrightarrow> regionName r' = regionName r"
  by (auto simp: AddContainer_def split: option.splits)

lemma addContainerLoop_keyed:
  "keyedByName rm \<Longrightarrow> addContainerLoop pol ci regions rm = (e, rm') \<Longrightarrow> keyedByName rm'"
proof (induction regions arbitrary: rm)
  case Nil
  then show ?case by simp
next
  case (Cons r regions)
  show ?case
  proof (cases "AddContainer pol r ci")
    case (Inl err)
    with Cons.prems show ?thesis by simp
  next
    case (Inr r')
    with Cons.prems have "addContainerLoop pol ci regions (AList.update (regionName r') r' rm) = (e, rm')"
      by simp
    from Cons.IH [OF keyedByName_update [OF Cons.prems(1)] this] show ?thesis .
  qed
qed

lemma assignCallback_keyed:
  assumes "keyedByName (regionMap cra)"
    and "assignCallback pol ci (cra, errs) = (b, ci', cra', errs')"
  shows "keyedByName (regionMap cra')"
  using assms
  by (auto simp: assignCallback_def Let_def dest: addContainerLoop_keyed
      split: prod.splits sum.splits option.splits if_splits)

lemma rangeContainers_keyed:
  "keyedByName (regionMap cra) \<Longrightarrow>
   rangeContainers (assignCallback pol) cs (cra, errs) = (cs', cra', errs') \<Longrightarrow>
   keyedByName (regionMap cra')"
proof (induction cs arbitrary: cra errs cs' cra' errs')
  case Nil
  then show ?case by simp
next
  case (Cons ci cs)
  obtain b ci1 cra1 errs1 where f: "assignCallback pol ci (cra, errs) = (b, ci1, cra1, errs1)"
    by (metis prod_cases4)
  have b: "b" using assignCallback_continue [of pol ci "(cra, errs)"] f by simp
  obtain cs2 cra2 errs2 where r:
    "rangeContainers (assignCallback pol) cs (cra1, errs1) = (cs2, cra2, errs2)"
    by (metis prod_cases3)
  from Cons.prems(2) f b r have "cra' = cra2" by simp
  with Cons.IH [OF assignCallback_keyed [OF Cons.prems(1) f] r] show ?case by simp
qed

lemma keyedByName_map:
  "keyedByName rm \<Longrightarrow> (\<And>r. regionName (g r) = regionName r) \<Longrightarrow>
   keyedByName (map (\<lambda>(rName, r). (rName, g r)) rm)"
  unfolding keyedByName_iff by auto

lemma keyedByName_filter: "keyedByName rm \<Longrightarrow> keyedByName (filter P rm)"
  unfolding keyedByName_iff by auto

lemma assign_keyed:
  assumes "keyedByName (regionMap cra)"
  shows "keyedByName (regionMap (fst (assignContainersToRegions pol cra)))"
proof -
  let ?cra1 = "cra\<lparr>regionMap := map (\<lambda>(rName, r). (rName, Clear r)) (regionMap cra)\<rparr>"
  have k1: "keyedByName (regionMap ?cra1)"
    using keyedByName_map [OF assms, of Clear] by (simp add: Clear_def)
  obtain cs2 cra2 errs2 where r:
    "rangeContainers (assignCallback pol) (containerEntries (metaCache ?cra1)) (?cra1, [])
      = (cs2, cra2, errs2)"
    by (metis prod_cases3)
  have k2: "keyedByName (regionMap cra2)"
    by (rule rangeContainers_keyed [OF k1 r])
  have k3: "keyedByName (filter (\<lambda>(rName, r). \<not> IsEmpty r) (regionMap cra2))"
    by (rule keyedByName_filter [OF k2])
  have k4: "keyedByName (map (\<lambda>(rName, r). (rName, if regionType r = QoSRegionTypeShare then SetBindingNumas r numas else r))
      (filter (\<lambda>(rName, r). \<not> IsEmpty r) (regionMap cra2)))" for numas
    by (rule keyedByName_map [OF k3]) (simp add: SetBindingNumas_def)
  show ?thesis using r k4
    by (simp add: assignContainersToRegions_def RangeAndUpdateContainer_def gc_def
        updateNonBindingNumas_def Let_def)
qed


lemma keyedByName_phases [simp]:
  "keyedByName (regionMap (logf l c)) = keyedByName (regionMap c)"
  "keyedByName (regionMap (provisionRegions pol p c)) = keyedByName (regionMap c)"
  "keyedByName (regionMap (updateHeadrooms pol c)) = keyedByName (regionMap c)"
  by (auto simp: keyedByName_iff logf_def provisionRegions_def updateHeadrooms_def
      TryUpdateProvision_def TryUpdateHeadroom_def SetEssentials_def)

lemma update_keyed:
  assumes k: "keyedByName (regionMap cra)"
    and u: "update pol now cra = Inr cra'"
  shows "keyedByName (regionMap cra')"
proof (cases "poolEntries (metaCache cra) PoolNameReserve")
  case None
  with u have "cra' = logf [Warning_SkipUpdateReservePoolNotExist] cra"
    by (simp add: update_def GetPoolInfo_def)
  with k show ?thesis by simp
next
  case (Some reservePoolInfo)
  obtain cra1 e where a: "assignContainersToRegions pol cra = (cra1, e)"
    by (cases "assignContainersToRegions pol cra")
  define cra3 where
    "cra3 = provisionRegions pol reservePoolInfo (logf [Info_RegionMap (map fst (regionMap cra1))] cra1)"
  have "keyedByName (regionMap (fst (assignContainersToRegions pol cra)))"
    by (rule assign_keyed [OF k])
  then have k1: "keyedByName (regionMap cra1)"
    unfolding a by simp
  then have k3: "keyedByName (regionMap cra3)"
    by (simp add: cra3_def)
  have goal: "keyedByName (regionMap c) \<Longrightarrow> update pol now cra = Inr c \<Longrightarrow> ?thesis" for c
    using u by simp
  from update_cases [OF Some a cra3_def, of now] show ?thesis
  proof (elim disjE exE conjE)
    fix err
    assume v: "update pol now cra = Inr (logf [Error_AssignContainersToRegionsFailed err] cra1)"
    show ?thesis by (rule goal [OF _ v]) (simp add: k1)
  next
    fix err
    assume v: "update pol now cra = Inr (logf [Error_AssembleRegionEntriesFailed err] cra3)"
    show ?thesis by (rule goal [OF _ v]) (simp add: k3)
  next
    fix entries
    assume v: "update pol now cra =
              Inr (logf [Info_SkipNotifyingStartingUp]
                     (cra3\<lparr>metaCache := UpdateRegionEntries (metaCache cra3) entries\<rparr>))"
    show ?thesis by (rule goal [OF _ v]) (simp add: k3)
  next
    fix entries lg x
    assume x: "case x of
                  Panic pn \<Rightarrow> update pol now cra = Inl pn
                | Fail err \<Rightarrow>
                    update pol now cra =
                      Inr (logf (lg @ [Error_AssembleProvisionFailed err])
                             (cra3\<lparr>metaCache := UpdateRegionEntries (metaCache cra3) entries\<rparr>))
                | Ok plan \<Rightarrow>
                    update pol now cra =
                      Inr (updateHeadrooms pol
                             (logf (lg @ [Info_NotifyCPUServer])
                                (cra3\<lparr>metaCache := UpdateRegionEntries (metaCache cra3) entries,
                                      sendCh := sendCh cra3 @ [plan]\<rparr>)))"
    show ?thesis
    proof (cases x)
      case (Ok plan)
      with x have v: "update pol now cra =
                      Inr (updateHeadrooms pol
                             (logf (lg @ [Info_NotifyCPUServer])
                                (cra3\<lparr>metaCache := UpdateRegionEntries (metaCache cra3) entries,
                                      sendCh := sendCh cra3 @ [plan]\<rparr>)))" by simp
      show ?thesis by (rule goal [OF _ v]) (simp add: k3)
    next
      case (Fail err)
      with x have v: "update pol now cra =
                      Inr (logf (lg @ [Error_AssembleProvisionFailed err])
                             (cra3\<lparr>metaCache := UpdateRegionEntries (metaCache cra3) entries\<rparr>))"
        by simp
      show ?thesis by (rule goal [OF _ v]) (simp add: k3)
    next
      case (Panic pn)
      with x u show ?thesis by simp
    qed
  qed
qed

subsection \<open>Invariants of the region map\<close>

text \<open>
  Claim C5. At the end of every update cycle that found the reserve pool and returned,
  the binding NUMA set of every share region in the region map is the system NUMA set
  minus the union of the binding NUMA sets of the dedicated-numa-exclusive regions in the
  region map. The advisor's non-binding NUMA set is that same set: it is computed from
  the system NUMAs and the region map alone, not from its value before the cycle.
\<close>

theorem share_regions_bind_non_binding_numas:
  assumes "poolEntries (metaCache cra) PoolNameReserve \<noteq> None"
    and "update pol now cra = Inr cra'"
  shows "systemNumas cra' = systemNumas cra
       \<and> nonBindingNumas cra' =
           systemNumas cra
           - \<Union> {bindingNumas r | k r. (k, r) \<in> set (regionMap cra')
                    \<and> regionType r = QoSRegionTypeDedicatedNumaExclusive}
       \<and> (\<forall>(k, r) \<in> set (regionMap cra').
             regionType r = QoSRegionTypeShare \<longrightarrow>
             bindingNumas r =
               systemNumas cra
               - \<Union> {bindingNumas r | k r. (k, r) \<in> set (regionMap cra')
                        \<and> regionType r = QoSRegionTypeDedicatedNumaExclusive})"
proof -
  let ?cra1 = "fst (assignContainersToRegions pol cra)"
  note after = update_after_assignment [OF assms]
  have ex: "exclusiveNumas (regionMap cra') = exclusiveNumas (regionMap ?cra1)"
    by (rule exclusiveNumas_cong) (simp add: after)
  have nb: "nonBindingNumas cra' = systemNumas cra - exclusiveNumas (regionMap cra')"
    using after assign_nonBinding [of pol cra] unfolding ex by simp
  have sh: "bindingNumas r = systemNumas cra - exclusiveNumas (regionMap cra')"
    if "(k, r) \<in> set (regionMap cra')" "regionType r = QoSRegionTypeShare" for k r
  proof -
    have "(k, regionType r, bindingNumas r, podSet r) \<in> set (regionShapes ?cra1)"
      using regionShapes_mem [OF that(1)] after by simp
    then obtain r1 where r1: "(k, r1) \<in> set (regionMap ?cra1)" "regionType r1 = regionType r"
        "bindingNumas r1 = bindingNumas r"
      using regionShapes_memD by blast
    have "bindingNumas r1 = nonBindingNumas ?cra1"
      using r1(1) r1(2) that(2) by (simp add: assign_share)
    then show ?thesis using r1(3) after nb by simp
  qed
  have "systemNumas cra' = systemNumas cra
       \<and> nonBindingNumas cra' = systemNumas cra - exclusiveNumas (regionMap cra')
       \<and> (\<forall>(k, r) \<in> set (regionMap cra').
             regionType r = QoSRegionTypeShare \<longrightarrow>
             bindingNumas r = systemNumas cra - exclusiveNumas (regionMap cra'))"
    using after nb sh by blast
  then show ?thesis unfolding exclusiveNumas_eq .
qed

theorem share_regions_bind_non_binding_numas_witness:
  "poolEntries (metaCache mixedNode) PoolNameReserve \<noteq> None
   \<and> (\<exists>cra'. update examplePolicies afterStartUp mixedNode = Inr cra'
         \<and> regionShapes cra' =
             [(''share-u'', QoSRegionTypeShare, {1}, {(''pod1'', ''c1'')}),
              (''dedicated-numa-exclusive-uu'', QoSRegionTypeDedicatedNumaExclusive, {0},
               {(''pod2'', ''c2'')})]
         \<and> nonBindingNumas cra' =
             systemNumas mixedNode
             - \<Union> {bindingNumas r | k r. (k, r) \<in> set (regionMap cra')
                      \<and> regionType r = QoSRegionTypeDedicatedNumaExclusive}
         \<and> (\<forall>(k, r) \<in> set (regionMap cra').
               regionType r = QoSRegionTypeShare \<longrightarrow>
               bindingNumas r =
                 systemNumas mixedNode
                 - \<Union> {bindingNumas r | k r. (k, r) \<in> set (regionMap cra')
                          \<and> regionType r = QoSRegionTypeDedicatedNumaExclusive}))"
proof -
  have h: "poolEntries (metaCache mixedNode) PoolNameReserve \<noteq> None"
    by (simp add: mixedNode_def withContainers_def emptyNode_def PoolNameReserve_def)
  have "observe regionShapes (update examplePolicies afterStartUp mixedNode) =
          Some [(''share-u'', QoSRegionTypeShare, {1}, {(''pod1'', ''c1'')}),
                (''dedicated-numa-exclusive-uu'', QoSRegionTypeDedicatedNumaExclusive, {0},
                 {(''pod2'', ''c2'')})]"
    by (simp add: all_defs Let_def)
  then obtain cra' where u: "update examplePolicies afterStartUp mixedNode = Inr cra'"
    and shapes: "regionShapes cra' =
             [(''share-u'', QoSRegionTypeShare, {1}, {(''pod1'', ''c1'')}),
              (''dedicated-numa-exclusive-uu'', QoSRegionTypeDedicatedNumaExclusive, {0},
               {(''pod2'', ''c2'')})]"
    by (auto dest: observe_SomeD)
  note t = share_regions_bind_non_binding_numas [OF h u]
  note t2 = t [THEN conjunct2, THEN conjunct1]
  note t3 = t [THEN conjunct2, THEN conjunct2]
  show ?thesis
    by (intro conjI exI [of _ cra']) (rule h u shapes t2 t3)+
qed

text \<open>
  Claim C8. At the end of the assignment phase the region map holds no region whose
  container set is empty, and the same is true at the end of every update cycle that
  found the reserve pool and returned.
\<close>

theorem no_empty_region_after_assignment:
  "(\<forall>(k, r) \<in> set (regionMap (fst (assignContainersToRegions pol cra))). \<not> IsEmpty r)
   \<and> (poolEntries (metaCache cra) PoolNameReserve \<noteq> None \<longrightarrow>
        update pol now cra = Inr cra' \<longrightarrow>
        (\<forall>(k, r) \<in> set (regionMap cra'). \<not> IsEmpty r))"
proof -
  let ?cra1 = "fst (assignContainersToRegions pol cra)"
  have a: "\<forall>(k, r) \<in> set (regionMap ?cra1). \<not> IsEmpty r"
    using assign_no_empty by blast
  have b: "\<not> IsEmpty r"
    if h: "poolEntries (metaCache cra) PoolNameReserve \<noteq> None" "update pol now cra = Inr cra'"
      and m: "(k, r) \<in> set (regionMap cra')" for k r
  proof -
    note after = update_after_assignment [OF h]
    have "(k, regionType r, bindingNumas r, podSet r) \<in> set (regionShapes ?cra1)"
      using regionShapes_mem [OF m] after by simp
    then obtain r1 where r1: "(k, r1) \<in> set (regionMap ?cra1)" "podSet r1 = podSet r"
      using regionShapes_memD by blast
    then show ?thesis using assign_no_empty [OF r1(1)] by (simp add: IsEmpty_def)
  qed
  show ?thesis using a b by blast
qed

theorem no_empty_region_after_assignment_witness:
  "regionShapes mixedNode = [(''share-old'', QoSRegionTypeShare, {0, 1}, {(''pod0'', ''c0'')})]
   \<and> poolEntries (metaCache mixedNode) PoolNameReserve \<noteq> None
   \<and> (\<exists>cra'. update examplePolicies afterStartUp mixedNode = Inr cra'
         \<and> map fst (regionMap cra') = [''share-u'', ''dedicated-numa-exclusive-uu'']
         \<and> (\<forall>(k, r) \<in> set (regionMap cra'). \<not> IsEmpty r))"
proof -
  have h0: "regionShapes mixedNode = [(''share-old'', QoSRegionTypeShare, {0, 1}, {(''pod0'', ''c0'')})]"
    by (simp add: all_defs)
  have h: "poolEntries (metaCache mixedNode) PoolNameReserve \<noteq> None"
    by (simp add: mixedNode_def withContainers_def emptyNode_def PoolNameReserve_def)
  have "observe (map fst \<circ> regionMap) (update examplePolicies afterStartUp mixedNode) =
          Some [''share-u'', ''dedicated-numa-exclusive-uu'']"
    by (simp add: all_defs Let_def)
  then obtain cra' where u: "update examplePolicies afterStartUp mixedNode = Inr cra'"
    and names: "map fst (regionMap cra') = [''share-u'', ''dedicated-numa-exclusive-uu'']"
    by (auto dest: observe_SomeD)
  note t = no_empty_region_after_assignment [of examplePolicies mixedNode afterStartUp cra']
  have ne: "\<forall>(k, r) \<in> set (regionMap cra'). \<not> IsEmpty r"
    by (rule t [THEN conjunct2, THEN mp, THEN mp, OF h u])
  show ?thesis
    by (intro conjI exI [of _ cra']) (rule h0 h u names ne)+
qed

subsection \<open>Assigning every container in turn: helper lemmas\<close>

lemma setPoolRegions_metaCache_only:
  "setPoolRegions pol (cra\<lparr>uuidCount := n, regionMap := rm\<rparr>) poolName regions
     = setPoolRegions pol cra poolName regions"
  by (simp add: setPoolRegions_def split: option.splits)

lemma assignCallback_errors:
  "\<exists>ci' cra'.
     assignCallback pol ci (cra, errs) =
       (True, ci', cra',
        errs @ (case containerAssignmentError pol cra ci of None \<Rightarrow> [] | Some err \<Rightarrow> [err]))
     \<and> assignCallback pol ci (cra, []) =
       (True, ci', cra',
        (case containerAssignmentError pol cra ci of None \<Rightarrow> [] | Some err \<Rightarrow> [err]))"
proof -
  obtain res n where a: "assignToRegions pol cra ci = (res, n)"
    by (cases "assignToRegions pol cra ci")
  show ?thesis
  proof (cases res)
    case (Inl err)
    with a show ?thesis
      by (simp add: assignCallback_def containerAssignmentError_def Let_def)
  next
    case (Inr regions)
    note res = Inr
    obtain e rm where l: "addContainerLoop pol ci regions (regionMap cra) = (e, rm)"
      by (cases "addContainerLoop pol ci regions (regionMap cra)")
    have l0: "regions = [] \<Longrightarrow> e = None" using l by simp
    show ?thesis
    proof (cases e)
      case (Some err)
      with a res l l0 show ?thesis
        by (auto simp: assignCallback_def containerAssignmentError_def Let_def)
    next
      case None
      note e = None
      obtain e2 mc where sp: "setPoolRegions pol cra (OwnerPoolName ci) regions = (e2, mc)"
        by (cases "setPoolRegions pol cra (OwnerPoolName ci) regions")
      show ?thesis
      proof (cases "regions = [] \<or> OwnerPoolName ci = PoolNameDedicated")
        case True
        with a res l e show ?thesis
          by (auto simp: assignCallback_def containerAssignmentError_def setContainerRegions_def
              Let_def)
      next
        case False
        with a res l e sp show ?thesis
          by (cases e2)
            (simp_all add: assignCallback_def containerAssignmentError_def setContainerRegions_def
              setPoolRegions_metaCache_only Let_def)
      qed
    qed
  qed
qed

lemma rangeContainers_assignAll:
  "rangeContainers (assignCallback pol) cs (cra, errs0) =
     (case assignAll pol cs cra of (cs', cra', errs) \<Rightarrow> (cs', cra', errs0 @ errs))"
proof (induction cs arbitrary: cra errs0)
  case Nil
  then show ?case by simp
next
  case (Cons ci cs)
  obtain ci' cra' where c:
    "assignCallback pol ci (cra, errs0) =
       (True, ci', cra',
        errs0 @ (case containerAssignmentError pol cra ci of None \<Rightarrow> [] | Some err \<Rightarrow> [err]))"
    "assignCallback pol ci (cra, []) =
       (True, ci', cra',
        (case containerAssignmentError pol cra ci of None \<Rightarrow> [] | Some err \<Rightarrow> [err]))"
    using assignCallback_errors [of pol ci cra errs0] by blast
  show ?case
    by (simp add: c Cons.IH split: prod.splits)
qed

lemma assignAll_append:
  "assignAll pol (cs1 @ cs2) cra =
     (case assignAll pol cs1 cra of
        (cs1', cra1, errs1) \<Rightarrow>
          (case assignAll pol cs2 cra1 of
             (cs2', cra2, errs2) \<Rightarrow> (cs1' @ cs2', cra2, errs1 @ errs2)))"
  by (induction cs1 arbitrary: cra) (simp_all split: prod.splits)

lemma assignAll_frame:
  "assignAll pol cs cra = (cs', cra', errs) \<Longrightarrow> sameFrame cra cra'"
  using rangeContainers_frame [of pol cs cra "[]" cs' cra' errs]
  by (simp add: rangeContainers_assignAll)

lemma assignContainersToRegions_assignAll:
  "assignAll pol (containerEntries (metaCache cra)) (clearRegions cra) = (cs', cra', errs) \<Longrightarrow>
   assignContainersToRegions pol cra = (finishAssignment cs' cra', NewAggregate errs)"
  by (simp add: assignContainersToRegions_def RangeAndUpdateContainer_def Let_def
      rangeContainers_assignAll clearRegions_def finishAssignment_def)

subsection \<open>Headrooms and region entries: helper lemmas\<close>










lemma regionHeadrooms_phases [simp]:
  "regionHeadrooms (logf l c) = regionHeadrooms c"
  "regionHeadrooms (provisionRegions pol p c) = regionHeadrooms c"
  "regionHeadrooms (c\<lparr>metaCache := mc\<rparr>) = regionHeadrooms c"
  by (simp_all add: regionHeadrooms_def logf_def provisionRegions_def TryUpdateProvision_def
      SetEssentials_def split_def comp_def)





subsection \<open>The startup window\<close>




subsection \<open>Errors in the cycle\<close>

text \<open>
  Claim C2, as stated: an error in the assignment of one container does not abort the
  cycle, which goes on to per-region provisioning, region-entry publication and plan
  assembly. On the node where the pool of the first container names a region that does
  not exist, the error is aggregated and logged and the second container is still given
  its region, but the cycle ends there: the region has had no provision update, no
  region entry is published and nothing is sent.
\<close>

theorem assignment_error_counterexample:
  "observe klog (update examplePolicies afterStartUp orphanNode)
     = Some [Error_AssignContainersToRegionsFailed (Aggregate [FailedToFindRegion ''share-missing''])]
   \<and> observe regionShapes (update examplePolicies afterStartUp orphanNode)
       = Some [(''share-u'', QoSRegionTypeShare, {0, 1}, {(''pod1'', ''c1'')})]
   \<and> observe (map (provision \<circ> snd) \<circ> regionMap) (update examplePolicies afterStartUp orphanNode)
       = Some [initialProvision examplePolicies]
   \<and> observe (dom \<circ> regionEntries \<circ> metaCache) (update examplePolicies afterStartUp orphanNode)
       = Some {}
   \<and> observe sendCh (update examplePolicies afterStartUp orphanNode) = Some []"
  by (simp add: all_defs Let_def)

text \<open>
  Claim C2, amended. If the assignment of a container runs into an error, from
  \<^verbatim>\<open>assignToRegions\<close>, \<^verbatim>\<open>AddContainer\<close> or \<^verbatim>\<open>setPoolRegions\<close>, the callback adds it to the
  errors on record and tells the MetaCache to go on; every remaining container is
  assigned in turn, in the advisor the failing one left, as it would be with no error on
  record. The cycle then logs the aggregate of all the errors and returns the advisor as
  the assignment phase left it: there is no provision update, no region entry is
  published and nothing is sent.
\<close>

theorem assignment_error_ends_cycle:
  assumes "poolEntries (metaCache cra) PoolNameReserve \<noteq> None"
    and "containerEntries (metaCache cra) = cs1 @ ci # cs2"
    and "assignAll pol cs1 (clearRegions cra) = (cs1', cra1, errs1)"
    and "containerAssignmentError pol cra1 ci = Some err"
  shows "\<exists>ci' cra1' cs2' cra2 errs2 cra'.
           assignCallback pol ci (cra1, errs1) = (True, ci', cra1', errs1 @ [err])
         \<and> assignAll pol cs2 cra1' = (cs2', cra2, errs2)
         \<and> cra' = logf [Error_AssignContainersToRegionsFailed (Aggregate (errs1 @ err # errs2))]
                    (finishAssignment (cs1' @ ci' # cs2') cra2)
         \<and> update pol now cra = Inr cra'
         \<and> regionEntries (metaCache cra') = regionEntries (metaCache cra)
         \<and> sendCh cra' = sendCh cra"
proof -
  obtain reservePoolInfo where p: "poolEntries (metaCache cra) PoolNameReserve = Some reservePoolInfo"
    using assms(1) by blast
  obtain ci' cra1' where c:
    "assignCallback pol ci (cra1, errs1) = (True, ci', cra1', errs1 @ [err])"
    "assignCallback pol ci (cra1, []) = (True, ci', cra1', [err])"
    using assignCallback_errors [of pol ci cra1 errs1] assms(4) by auto
  obtain cs2' cra2 errs2 where r: "assignAll pol cs2 cra1' = (cs2', cra2, errs2)"
    by (cases "assignAll pol cs2 cra1'") auto
  have all: "assignAll pol (containerEntries (metaCache cra)) (clearRegions cra)
      = (cs1' @ ci' # cs2', cra2, errs1 @ err # errs2)"
    unfolding assms(2) by (simp add: assignAll_append assms(3) c(2) r)
  have a: "assignContainersToRegions pol cra
      = (finishAssignment (cs1' @ ci' # cs2') cra2, Some (Aggregate (errs1 @ err # errs2)))"
    using assignContainersToRegions_assignAll [OF all] by (simp add: NewAggregate_def)
  let ?cra' = "logf [Error_AssignContainersToRegionsFailed (Aggregate (errs1 @ err # errs2))]
                    (finishAssignment (cs1' @ ci' # cs2') cra2)"
  have u: "update pol now cra = Inr ?cra'"
    using p a by (simp add: update_def GetPoolInfo_def)
  have "sameFrame cra (fst (assignContainersToRegions pol cra))"
    by (rule assign_frame)
  then have f: "regionEntries (metaCache ?cra') = regionEntries (metaCache cra)"
      "sendCh ?cra' = sendCh cra"
    unfolding a by (simp_all add: sameFrame_def logf_def)
  show ?thesis
    by (intro exI conjI) (rule c(1) r refl u f)+
qed

theorem assignment_error_ends_cycle_witness:
  "poolEntries (metaCache orphanNode) PoolNameReserve \<noteq> None
   \<and> containerEntries (metaCache orphanNode) = [] @ orphanContainer # [shareContainer]
   \<and> assignAll examplePolicies [] (clearRegions orphanNode) = ([], clearRegions orphanNode, [])
   \<and> containerAssignmentError examplePolicies (clearRegions orphanNode) orphanContainer
       = Some (FailedToFindRegion ''share-missing'')
   \<and> (\<exists>cra'. update examplePolicies afterStartUp orphanNode = Inr cra'
         \<and> regionEntries (metaCache cra') = Map.empty \<and> sendCh cra' = [])"
proof -
  have h1: "poolEntries (metaCache orphanNode) PoolNameReserve \<noteq> None"
    by (simp add: orphanNode_def PoolNameReserve_def)
  have h2: "containerEntries (metaCache orphanNode) = [] @ orphanContainer # [shareContainer]"
    by (simp add: orphanNode_def)
  have h3: "assignAll examplePolicies [] (clearRegions orphanNode) = ([], clearRegions orphanNode, [])"
    by simp
  have h4: "containerAssignmentError examplePolicies (clearRegions orphanNode) orphanContainer
       = Some (FailedToFindRegion ''share-missing'')"
    by (simp add: all_defs Let_def)
  have o: "regionEntries (metaCache orphanNode) = Map.empty" "sendCh orphanNode = []"
    by (simp_all add: orphanNode_def withContainers_def emptyNode_def)
  from assignment_error_ends_cycle [OF h1 h2 h3 h4, of afterStartUp]
  obtain cra' where "update examplePolicies afterStartUp orphanNode = Inr cra'"
    "regionEntries (metaCache cra') = regionEntries (metaCache orphanNode)"
    "sendCh cra' = sendCh orphanNode"
    by blast
  then have "\<exists>cra'. update examplePolicies afterStartUp orphanNode = Inr cra'
         \<and> regionEntries (metaCache cra') = Map.empty \<and> sendCh cra' = []"
    unfolding o by (intro exI [of _ cra'] conjI)
  with h1 h2 h3 h4 show ?thesis by (intro conjI)
qed






subsection \<open>The reclaim pool of the non-binding NUMAs\<close>

lemma assembleProvisionLoop_requirement:
  "assembleProvisionLoop rm entries req lg = (lg', Ok (entries', req')) \<Longrightarrow>
   req' = req + shareRequirement rm"
proof (induction rm arbitrary: entries req lg)
  case Nil
  then show ?case by (simp add: shareRequirement_def)
next
  case (Cons kr rm)
  obtain k r where kr: "kr = (k, r)" by (cases kr)
  show ?case
  proof (cases "provision r")
    case (Inl e)
    with Cons.prems kr show ?thesis by simp
  next
    case (Inr controlKnob)
    note pr = Inr
    show ?thesis
    proof (cases "regionType r")
      case QoSRegionTypeShare
      with Cons.prems kr pr have
        "assembleProvisionLoop rm
           (entries(PoolNameShare \<mapsto>
              [FakedNumaID \<mapsto> goInt (knobValueOf controlKnob ControlKnobNonReclaimedCPUSetSize)]))
           (req + goInt (knobValueOf controlKnob ControlKnobNonReclaimedCPUSetSize)) lg
         = (lg', Ok (entries', req'))"
        by (simp add: Let_def)
      from Cons.IH [OF this] show ?thesis
        using kr pr QoSRegionTypeShare by (simp add: shareRequirement_def)
    next
      case QoSRegionTypeDedicatedNumaExclusive
      note ty = QoSRegionTypeDedicatedNumaExclusive
      show ?thesis
      proof (cases "sorted_list_of_set (bindingNumas r)")
        case Nil
        with Cons.prems kr pr ty show ?thesis by (simp add: Let_def)
      next
        case (Cons regionNuma rest)
        with Cons.prems kr pr ty obtain entries1 lg1 where
          "assembleProvisionLoop rm entries1 req lg1 = (lg', Ok (entries', req'))"
          by (simp add: Let_def)
        from Cons.IH [OF this] show ?thesis
          using kr ty by (simp add: shareRequirement_def)
      qed
    qed
  qed
qed

text \<open>
  Claim C4, as stated: with non-negative inputs and reclaim enabled, the plan's entry
  \<open>PoolEntries[reclaim][-1]\<close> is never negative. On the 16-CPU node with a reserve pool
  of 2 CPUs, whose share region's policy asks for 20 non-reclaimed CPUs, the plan sent
  holds 20 for the share pool and \<open>16 - 20 - 2 = -6\<close> for the reclaim pool.
\<close>

theorem reclaim_pool_negative_counterexample:
  "observe (sentPoolEntries PoolNameReclaim FakedNumaID) (update greedyPolicies afterStartUp shareNode)
     = Some [Some (- 6)]
   \<and> observe (sentPoolEntries PoolNameShare FakedNumaID) (update greedyPolicies afterStartUp shareNode)
     = Some [Some 20]
   \<and> observe (sentPoolEntries PoolNameReserve (- 1)) (update greedyPolicies afterStartUp shareNode)
     = Some [Some 2]"
  by (simp add: all_defs Let_def)

text \<open>
  Claim C4, amended. Whenever the plan is assembled, the reserve pool exists and the
  number of NUMA nodes is positive, \<open>PoolEntries[reclaim][-1]\<close> is the number of
  non-binding NUMAs times the CPUs per NUMA, minus the summed
  \<^verbatim>\<open>non_reclaimed_cpuset_size\<close> knobs of the share regions, minus the ceiling of the reserve
  pool size times the number of non-binding NUMAs over the number of NUMA nodes; it is
  non-negative when the two subtracted terms together do not exceed the first.
\<close>

theorem reclaim_pool_of_non_binding_numas:
  assumes "assembleProvision cra = (lg, Ok plan)"
    and "GetPoolSize (metaCache cra) PoolNameReserve = Some reservePoolSize"
    and "0 < NumNUMANodes (metaServer cra)"
  shows "poolEntry plan PoolNameReclaim FakedNumaID =
           Some (int (card (nonBindingNumas cra)) * CPUsPerNuma (metaServer cra)
                 - shareRequirement (regionMap cra)
                 - \<lceil>real_of_int (reservePoolSize * int (card (nonBindingNumas cra)))
                      / real_of_int (NumNUMANodes (metaServer cra))\<rceil>)
       \<and> (shareRequirement (regionMap cra)
            + \<lceil>real_of_int (reservePoolSize * int (card (nonBindingNumas cra)))
                 / real_of_int (NumNUMANodes (metaServer cra))\<rceil>
              \<le> int (card (nonBindingNumas cra)) * CPUsPerNuma (metaServer cra)
            \<longrightarrow> (\<exists>v. poolEntry plan PoolNameReclaim FakedNumaID = Some v \<and> 0 \<le> v))"
proof -
  let ?entries0 = "[PoolNameReserve \<mapsto> [- 1 \<mapsto> reservePoolSize]]"
  obtain lg1 x where l: "assembleProvisionLoop (regionMap cra) ?entries0 0 [] = (lg1, x)"
    by (cases "assembleProvisionLoop (regionMap cra) ?entries0 0 []")
  show ?thesis
  proof (cases x)
    case (Ok pr)
    obtain entries req where pr: "pr = (entries, req)" by (cases pr)
    have req: "req = shareRequirement (regionMap cra)"
      using assembleProvisionLoop_requirement [of "regionMap cra" ?entries0 0 "[]" lg1 entries req]
        l Ok pr by simp
    have "poolEntry plan PoolNameReclaim FakedNumaID =
           Some (int (card (nonBindingNumas cra)) * CPUsPerNuma (metaServer cra)
                 - shareRequirement (regionMap cra)
                 - \<lceil>real_of_int (reservePoolSize * int (card (nonBindingNumas cra)))
                      / real_of_int (NumNUMANodes (metaServer cra))\<rceil>)"
      using assms(1,2) l Ok pr req
      by (auto simp: assembleProvision_def Let_def poolEntry_def ceilDiv_def cpusetSize_def)
    then show ?thesis by simp
  next
    case (Fail e)
    with assms(1,2) l show ?thesis by (simp add: assembleProvision_def Let_def)
  next
    case (Panic pn)
    with assms(1,2) l show ?thesis by (simp add: assembleProvision_def Let_def)
  qed
qed

theorem reclaim_pool_of_non_binding_numas_witness:
  "(\<exists>lg plan. assembleProvision (afterProvisioning examplePolicies reservePool shareNode) = (lg, Ok plan)
      \<and> poolEntry plan PoolNameReclaim FakedNumaID = Some 11)
   \<and> GetPoolSize (metaCache (afterProvisioning examplePolicies reservePool shareNode)) PoolNameReserve
       = Some 2
   \<and> 0 < NumNUMANodes (metaServer (afterProvisioning examplePolicies reservePool shareNode))
   \<and> shareRequirement (regionMap (afterProvisioning examplePolicies reservePool shareNode)) = 3
   \<and> int (card (nonBindingNumas (afterProvisioning examplePolicies reservePool shareNode))) = 2
   \<and> CPUsPerNuma (metaServer (afterProvisioning examplePolicies reservePool shareNode)) = 8
   \<and> (3::int) + \<lceil>real_of_int (2 * 2) / real_of_int 2\<rceil> \<le> 2 * 8"
proof -
  let ?cra = "afterProvisioning examplePolicies reservePool shareNode"
  have "\<exists>plan. assembleProvision ?cra = ([], Ok plan)"
    by (simp add: all_defs Let_def)
  then obtain plan where h1: "assembleProvision ?cra = ([], Ok plan)" by blast
  have h2: "GetPoolSize (metaCache ?cra) PoolNameReserve = Some 2"
    by (simp add: all_defs Let_def)
  have h3: "0 < NumNUMANodes (metaServer ?cra)"
    by (simp add: all_defs Let_def)
  have v: "shareRequirement (regionMap ?cra) = 3" "int (card (nonBindingNumas ?cra)) = 2"
      "CPUsPerNuma (metaServer ?cra) = 8" "NumNUMANodes (metaServer ?cra) = 2"
    by (simp_all add: all_defs shareRequirement_def Let_def)
  note t = reclaim_pool_of_non_binding_numas [OF h1 h2 h3, THEN conjunct1]
  have "poolEntry plan PoolNameReclaim FakedNumaID = Some 11"
    unfolding t v by simp
  moreover have "(3::int) + \<lceil>real_of_int (2 * 2) / real_of_int 2\<rceil> \<le> 2 * 8"
    by simp
  ultimately show ?thesis using h1 h2 h3 v by blast
qed

end
